theory Spec2Isabelle
  imports Main "HOL-Library.Multiset"
begin

section \<open>Python strings\<close>

text \<open>
  A Python \<open>str\<close> is a sequence of Unicode code points, so it is modelled as a list of
  naturals. The function \<open>u\<close> turns an ASCII literal into such a list; code points outside
  ASCII (accented letters, emoji) are written as numerals.
\<close>

type_synonym pystr = "nat list"

definition u :: "string \<Rightarrow> pystr" where
  "u s = map of_char s"

text \<open>\<open>str.isspace\<close> on one code point: the Unicode white-space characters.\<close>

definition isspace :: "nat \<Rightarrow> bool" where
  "isspace c \<longleftrightarrow>
     (9 \<le> c \<and> c \<le> 13) \<or> (28 \<le> c \<and> c \<le> 32) \<or> c = 0x85 \<or> c = 0xA0 \<or> c = 0x1680 \<or>
     (0x2000 \<le> c \<and> c \<le> 0x200A) \<or> c = 0x2028 \<or> c = 0x2029 \<or> c = 0x202F \<or>
     c = 0x205F \<or> c = 0x3000"

text \<open>\<open>s.strip()\<close>: white space removed from both ends.\<close>

definition strip :: "pystr \<Rightarrow> pystr" where
  "strip s = rev (dropWhile isspace (rev (dropWhile isspace s)))"

text \<open>\<open>s.split(sep)\<close> for a one-character separator: every occurrence splits, empty
  fields are kept.\<close>

fun split_sep :: "nat \<Rightarrow> pystr \<Rightarrow> pystr list" where
  "split_sep sep [] = [[]]"
| "split_sep sep (c # cs) =
     (if c = sep then [] # split_sep sep cs
      else (case split_sep sep cs of [] \<Rightarrow> [[c]] | p # ps \<Rightarrow> (c # p) # ps))"

text \<open>\<open>s.replace(a, b)\<close> for a one-character \<open>a\<close>.\<close>

definition replace_chr :: "nat \<Rightarrow> pystr \<Rightarrow> pystr \<Rightarrow> pystr" where
  "replace_chr a b s = concat (map (\<lambda>c. if c = a then b else [c]) s)"

text \<open>\<open>s.startswith(p)\<close> and \<open>sub in s\<close>.\<close>

fun startswith :: "pystr \<Rightarrow> pystr \<Rightarrow> bool" where
  "startswith s [] = True"
| "startswith [] (p # ps) = False"
| "startswith (c # cs) (p # ps) = (c = p \<and> startswith cs ps)"

fun contains :: "pystr \<Rightarrow> pystr \<Rightarrow> bool" where
  "contains sub [] = (sub = [])"
| "contains sub (c # cs) = (startswith (c # cs) sub \<or> contains sub cs)"

text \<open>\<open>sep.join(xs)\<close>.\<close>

fun join :: "pystr \<Rightarrow> pystr list \<Rightarrow> pystr" where
  "join sep [] = []"
| "join sep [x] = x"
| "join sep (x # y # ys) = x @ sep @ join sep (y # ys)"

text \<open>\<open>str(n)\<close> for a non-negative integer: its decimal digits.\<close>

function str_nat :: "nat \<Rightarrow> pystr" where
  "str_nat n = (if n < 10 then [48 + n] else str_nat (n div 10) @ [48 + n mod 10])"
  by pat_completeness auto
termination
  by (relation "measure id") auto

declare str_nat.simps [simp del]

definition hyphen :: nat where "hyphen = 45"
definition comma :: nat where "comma = 44"
definition period :: nat where "period = 46"
definition space :: nat where "space = 32"
definition slash :: nat where "slash = 47"
definition underscore :: nat where "underscore = 95"

text \<open>\<open>c.lower()\<close> on an ASCII letter.\<close>

definition lower_ascii :: "nat \<Rightarrow> nat" where
  "lower_ascii c = (if 65 \<le> c \<and> c \<le> 90 then c + 32 else c)"

section \<open>Exceptions\<close>

text \<open>
  The exceptions that the handlers do not catch. A function that can raise returns a sum:
  \<open>Inl\<close> the exception, \<open>Inr\<close> the value. \<open>and_then\<close> runs the next step unless the
  first one raised; \<open>append_all\<close> is a loop that appends one text per iteration and stops
  at the first iteration that raises.
\<close>

datatype py_error = TypeError | ValueError | AttributeError

definition and_then :: "py_error + 'a \<Rightarrow> ('a \<Rightarrow> py_error + 'b) \<Rightarrow> py_error + 'b" where
  "and_then m f = (case m of Inl e \<Rightarrow> Inl e | Inr x \<Rightarrow> f x)"

fun append_all :: "pystr \<Rightarrow> (py_error + pystr) list \<Rightarrow> py_error + pystr" where
  "append_all acc [] = Inr acc"
| "append_all acc (Inl e # rs) = Inl e"
| "append_all acc (Inr b # rs) = append_all (acc @ b) rs"

text \<open>A list comprehension whose element expression can raise.\<close>

fun collect :: "(py_error + 'a) list \<Rightarrow> py_error + 'a list" where
  "collect [] = Inr []"
| "collect (Inl e # rs) = Inl e"
| "collect (Inr x # rs) = (case collect rs of Inl e \<Rightarrow> Inl e | Inr xs \<Rightarrow> Inr (x # xs))"

section \<open>JSON values\<close>

text \<open>
  What \<open>response.json()\<close> returns: \<open>None\<close>, a truth value, a number, a text, a list or a
  dictionary, the latter as its pairs of key and value. Numbers are of the type variable
  \<open>'v\<close>, see below.
\<close>

datatype 'v json =
    JNull
  | JBool bool
  | JNum "'v"
  | JStr pystr
  | JList "'v json list"
  | JObj "(pystr \<times> 'v json) list"

section \<open>The language runtime: numbers and dates\<close>

text \<open>
  Purchase values are Python floats, the numbers of a JSON document are Python integers or
  floats, and purchase dates are \<open>datetime\<close> objects. Floating point arithmetic and its
  formatting are not reproduced here: the operations the program applies to numbers and
  dates are parameters, collected in a record, and every result below holds for all such
  operations. A number is of the type variable \<open>'v\<close>; a date is a point in time, a natural
  number.
  \<^item> \<open>pyfloat s\<close> is \<open>float(s)\<close>; \<open>None\<close> stands for the \<open>ValueError\<close> it raises;
  \<^item> \<open>isnan v\<close> holds when \<open>v\<close> is the float NaN, which \<open>float\<close> returns for the text
    \<open>nan\<close>;
  \<^item> \<open>num_bool v\<close> is \<open>bool(v)\<close>, false for zero only;
  \<^item> \<open>py_int i\<close> is the integer \<open>i\<close> as a number: \<open>sum\<close> starts from \<open>py_int 0\<close>, which
    is also the default of a missing discount;
  \<^item> \<open>float_add\<close> is \<open>+\<close>;
  \<^item> \<open>format_2f v\<close> and \<open>format_1f v\<close> are \<open>f"{v:.2f}"\<close> and \<open>f"{v:.1f}"\<close>; JSON
    integers too large for a float, on which they raise, are left out;
  \<^item> \<open>py_str j\<close> is \<open>str(j)\<close> for a JSON value \<open>j\<close> other than a text;
  \<^item> \<open>strftime_dmY d\<close> and \<open>strftime_dm d\<close> are \<open>d.strftime('%d/%m/%Y')\<close> and
    \<open>d.strftime('%d/%m')\<close>.
\<close>

record 'v runtime =
  pyfloat :: "pystr \<Rightarrow> 'v option"
  isnan :: "'v \<Rightarrow> bool"
  num_bool :: "'v \<Rightarrow> bool"
  py_int :: "int \<Rightarrow> 'v"
  float_add :: "'v \<Rightarrow> 'v \<Rightarrow> 'v"
  format_2f :: "'v \<Rightarrow> pystr"
  format_1f :: "'v \<Rightarrow> pystr"
  py_str :: "'v json \<Rightarrow> pystr"
  strftime_dmY :: "nat \<Rightarrow> pystr"
  strftime_dm :: "nat \<Rightarrow> pystr"

text \<open>
  \<open>sum(xs)\<close> over column values: the additions run from the left, starting from the integer
  \<open>0\<close>; a value that is \<open>None\<close> cannot be added and raises \<open>TypeError\<close>.
\<close>

fun sum_from :: "'v runtime \<Rightarrow> 'v \<Rightarrow> 'v option list \<Rightarrow> py_error + 'v" where
  "sum_from rt acc [] = Inr acc"
| "sum_from rt acc (None # xs) = Inl TypeError"
| "sum_from rt acc (Some x # xs) = sum_from rt (float_add rt acc x) xs"

definition py_sum :: "'v runtime \<Rightarrow> 'v option list \<Rightarrow> py_error + 'v" where
  "py_sum rt xs = sum_from rt (py_int rt 0) xs"

text \<open>\<open>f"{x:.2f}"\<close> on a column value: \<open>None\<close> has no such format.\<close>

definition format_value :: "'v runtime \<Rightarrow> 'v option \<Rightarrow> py_error + pystr" where
  "format_value rt x = (case x of None \<Rightarrow> Inl TypeError | Some v \<Rightarrow> Inr (format_2f rt v))"

text \<open>The operations of the program on a JSON value: \<open>d.get(key, default)\<close>, the truth
  value in \<open>if not d\<close>, the items a \<open>for\<close> loop runs over, \<open>f"{x}"\<close> and \<open>f"{x:.1f}"\<close>.\<close>

definition dict_get :: "'v json \<Rightarrow> pystr \<Rightarrow> 'v json \<Rightarrow> py_error + 'v json" where
  "dict_get d key dflt =
     (case d of
        JObj kvs \<Rightarrow> Inr (case map_of kvs key of None \<Rightarrow> dflt | Some x \<Rightarrow> x)
      | _ \<Rightarrow> Inl AttributeError)"

definition truthy :: "'v runtime \<Rightarrow> 'v json \<Rightarrow> bool" where
  "truthy rt j =
     (case j of
        JNull \<Rightarrow> False
      | JBool b \<Rightarrow> b
      | JNum n \<Rightarrow> num_bool rt n
      | JStr s \<Rightarrow> s \<noteq> []
      | JList xs \<Rightarrow> xs \<noteq> []
      | JObj kvs \<Rightarrow> kvs \<noteq> [])"

definition iterate :: "'v json \<Rightarrow> py_error + 'v json list" where
  "iterate j =
     (case j of
        JList xs \<Rightarrow> Inr xs
      | JStr s \<Rightarrow> Inr (map (\<lambda>c. JStr [c]) s)
      | JObj kvs \<Rightarrow> Inr (map (\<lambda>kv. JStr (fst kv)) kvs)
      | _ \<Rightarrow> Inl TypeError)"

definition str_json :: "'v runtime \<Rightarrow> 'v json \<Rightarrow> pystr" where
  "str_json rt j = (case j of JStr s \<Rightarrow> s | _ \<Rightarrow> py_str rt j)"

definition format_json_1f :: "'v runtime \<Rightarrow> 'v json \<Rightarrow> py_error + pystr" where
  "format_json_1f rt j =
     (case j of
        JNum n \<Rightarrow> Inr (format_1f rt n)
      | JBool b \<Rightarrow> Inr (format_1f rt (py_int rt (if b then 1 else 0)))
      | JStr s \<Rightarrow> Inl ValueError
      | _ \<Rightarrow> Inl TypeError)"

section \<open>Data model\<close>

text \<open>
  A row of the table \<open>purchases\<close> (class \<open>Purchase\<close>), as the database holds it. The column
  \<open>value\<close> is a nullable \<open>Float\<close>: SQLite cannot hold NaN and stores \<open>NULL\<close> in its place,
  which reads back as \<open>None\<close>.
\<close>

record 'v Purchase =
  id_col :: nat
  user_id :: int
  product :: pystr
  value_col :: "'v option"
  category :: pystr
  date :: nat

definition stored_value :: "'v runtime \<Rightarrow> 'v \<Rightarrow> 'v option" where
  "stored_value rt v = (if isnan rt v then None else Some v)"

text \<open>The values the handlers store under \<open>context.user_data['state']\<close>; the Python
  \<open>None\<close> (also the value of \<open>get\<close> on a user without the key) is \<open>None\<close>.\<close>

datatype pending = waiting_shopee_term | waiting_purchase | waiting_ai_prompt

text \<open>What the bot keeps between two events: the pending state of every user and the
  rows of the table, oldest first.\<close>

record 'v world =
  user_data :: "int \<Rightarrow> pending option"
  purchases :: "'v Purchase list"

text \<open>The outcome of \<open>requests.get\<close> followed by \<open>raise_for_status\<close> and, for the deals,
  \<open>response.json()\<close>: a \<open>RequestException\<close> (transport failure, timeout, non-success status,
  or a body that is no JSON, which \<open>requests\<close> reports by a subclass of it) or the body.\<close>

datatype 'a response = RequestException | Ok 'a

text \<open>
  Everything outside the program that a handler consults:
  \<^item> \<open>openai_client\<close>: whether \<open>OPENAI_API_KEY\<close> was set, so that the client object exists;
  \<^item> \<open>DISCOUNT_API_KEY\<close>: the key of the deals API, if set;
  \<^item> \<open>now\<close>: the clock, read by the column default of \<open>date\<close>;
  \<^item> \<open>http_shopee url\<close>: the answer to the search request, as the \<open>href\<close> values of the
    anchors of the page in document order (what \<open>soup.find_all('a', href=True)\<close> yields);
  \<^item> \<open>http_deals\<close>: the answer of the deals API, any JSON value;
  \<^item> \<open>chat_completion system user\<close>: the first choice's content, \<open>None\<close> when the call
    raises.
\<close>

record 'v env =
  openai_client :: bool
  DISCOUNT_API_KEY :: "pystr option"
  now :: nat
  http_shopee :: "pystr \<Rightarrow> pystr list response"
  http_deals :: "'v json response"
  chat_completion :: "pystr \<Rightarrow> pystr \<Rightarrow> pystr option"

text \<open>
  The effects of a handler, in the order the code performs them: a write to the pending
  state, a network request, a database access, and the calls of the Telegram API.
  \<open>ReplyText\<close>, \<open>ReplyMenu\<close> (a text with the inline keyboard) and \<open>EditText\<close> are the
  outbound messages; \<open>AnswerQuery\<close> is \<open>query.answer()\<close>, the acknowledgement of a button
  click. \<open>Raised e\<close> ends the trace of a handler that the exception \<open>e\<close> leaves: the
  library logs it and nothing more is sent. The calls of the Telegram API and the accesses
  to the database are taken to succeed: the handlers catch none of their exceptions.
\<close>

datatype 'v event =
    SetState int "pending option"
  | HttpGet pystr "(pystr \<times> pystr option) list"
  | ChatCompletion pystr pystr
  | DbAdd "'v Purchase"
  | DbQuery int
  | ReplyText pystr
  | ReplyMenu pystr "(pystr \<times> pystr) list"
  | EditText pystr
  | AnswerQuery
  | Raised py_error

fun is_outbound :: "'v event \<Rightarrow> bool" where
  "is_outbound (ReplyText m) = True"
| "is_outbound (ReplyMenu m k) = True"
| "is_outbound (EditText m) = True"
| "is_outbound e = False"

fun is_external :: "'v event \<Rightarrow> bool" where
  "is_external (HttpGet a p) = True"
| "is_external (ChatCompletion s p) = True"
| "is_external (DbAdd p) = True"
| "is_external (DbQuery i) = True"
| "is_external e = False"

definition set_state :: "int \<Rightarrow> pending option \<Rightarrow> 'v world \<Rightarrow> 'v world" where
  "set_state uid s w = w\<lparr>user_data := (user_data w)(uid := s)\<rparr>"

text \<open>The end of a handler that sends the text a client returned: the send, or the
  exception that the client raised.\<close>

definition send_or_raise :: "(pystr \<Rightarrow> 'v event) \<Rightarrow> py_error + pystr \<Rightarrow> 'v event list" where
  "send_or_raise send r = (case r of Inl e \<Rightarrow> [Raised e] | Inr m \<Rightarrow> [send m])"

section \<open>Deals client\<close>

definition deals_url :: pystr where
  "deals_url = u ''https://api.discountapi.com/v2/deals''"

definition no_deals_message :: pystr where
  "no_deals_message =
     u ''Nenhuma promo'' @ [0xE7, 0xE3] @ u ''o incr'' @ [0xED] @
     u ''vel encontrada no momento. Tente mais tarde!''"

definition deals_error_message :: pystr where
  "deals_error_message =
     [0x274C] @ u '' Ocorreu um erro ao buscar as promo'' @ [0xE7, 0xF5] @
     u ''es. Verifique a chave da API.''"

definition deals_header :: pystr where
  "deals_header = [0x2728] @ u '' **Melhores Deals do Dia** '' @ [0x2728, 10, 10]"

text \<open>The text one iteration of the loop over \<open>deals\<close> appends, unless it raises: \<open>get\<close> on
  an item or a \<open>deal\<close> that is no dictionary, or the format \<open>.1f\<close> on a discount that is
  no number.\<close>

definition deal_block :: "'v runtime \<Rightarrow> 'v json \<Rightarrow> py_error + pystr" where
  "deal_block rt item =
     and_then (dict_get item (u ''deal'') (JObj [])) (\<lambda>deal.
     and_then (dict_get deal (u ''title'') (JStr (u ''Sem T'' @ [0xED] @ u ''tulo''))) (\<lambda>title.
     and_then (dict_get deal (u ''price'') (JStr (u ''N/A''))) (\<lambda>price.
     and_then (dict_get deal (u ''discount_percentage'') (JNum (py_int rt 0))) (\<lambda>discount.
     and_then (dict_get deal (u ''provider'') (JStr (u ''Loja Desconhecida''))) (\<lambda>provider.
     and_then (dict_get deal (u ''url'') (JStr (u ''#''))) (\<lambda>link.
     and_then (format_json_1f rt discount) (\<lambda>discount_1f.
       Inr ([0x1F3F7, 0xFE0F] @ u '' **'' @ str_json rt title @ u ''**'' @ [10] @
            [0x1F4B0] @ u '' Pre'' @ [0xE7] @ u ''o: $'' @ str_json rt price @
            u '' | Desconto: '' @ discount_1f @ u ''%'' @ [10] @
            [0x1F3EA] @ u '' Loja: '' @ str_json rt provider @ [10] @
            u ''['' @ [0x1F517] @ u '' Ver Oferta]('' @ str_json rt link @ u '')'' @
            [10, 10]))))))))"

definition buscar_discount_api_real ::
  "'v runtime \<Rightarrow> 'v env \<Rightarrow> (py_error + pystr) \<times> 'v event list" where
  "buscar_discount_api_real rt env =
     (let params = [(u ''api_key'', DISCOUNT_API_KEY env), (u ''limit'', Some (str_nat 5))];
          request = HttpGet deals_url params
      in case http_deals env of
           RequestException \<Rightarrow> (Inr deals_error_message, [request])
         | Ok data \<Rightarrow>
             (case dict_get data (u ''deals'') (JList []) of
                Inl e \<Rightarrow> (Inl e, [request])
              | Inr deals \<Rightarrow>
                  if \<not> truthy rt deals then (Inr no_deals_message, [request])
                  else (case iterate deals of
                          Inl e \<Rightarrow> (Inl e, [request])
                        | Inr items \<Rightarrow>
                            (append_all deals_header (map (deal_block rt) items),
                             [request]))))"

text \<open>
  A deal as the API documents it, each field present or not: title, provider and link are
  texts, price and discount are numbers. \<open>deal_json\<close> is the item of the answer that
  carries it.
\<close>

record 'v deal =
  title :: "pystr option"
  price :: "'v option"
  discount_percentage :: "'v option"
  provider :: "pystr option"
  url :: "pystr option"




section \<open>Search client\<close>

definition shopee_fallback :: "pystr \<Rightarrow> pystr \<Rightarrow> pystr" where
  "shopee_fallback termo search_url =
     [0x274C] @ u '' O scraping da Shopee falhou ou n'' @ [0xE3] @
     u ''o encontrou resultados para '' @ [39] @ termo @ [39] @ u ''.'' @ [10] @
     u ''Isso '' @ [0xE9] @ u '' comum, pois a Shopee usa carregamento din'' @ [0xE2] @
     u ''mico (JavaScript).'' @ [10, 10] @
     u ''**Links Simulados (para demonstrar a funcionalidade):**'' @ [10] @
     [0x1F517] @ u '' [Produto 1 - '' @ termo @ u '']('' @ search_url @ u '')'' @ [10] @
     [0x1F517] @ u '' [Produto 2 - '' @ termo @ u '']('' @ search_url @ u '')'' @ [10]"

definition shopee_header :: "pystr \<Rightarrow> pystr" where
  "shopee_header termo =
     [0x1F6CD, 0xFE0F] @ u '' **Resultados da Shopee para '' @ [39] @ termo @ [39] @
     u ''** '' @ [0x1F6CD, 0xFE0F, 10, 10]"

text \<open>The text one iteration of the loop over \<open>enumerate(product_links)\<close> appends.\<close>

definition shopee_line :: "nat \<times> pystr \<Rightarrow> pystr" where
  "shopee_line il =
     (let i = fst il; link = snd il;
          full_link = (if startswith link [slash] then u ''https://shopee.com.br'' @ link
                       else link)
      in [0x1F517] @ u '' [Produto '' @ str_nat (i + 1) @ u '']('' @ full_link @ u '')'' @ [10])"

definition shopee_error_message :: pystr where
  "shopee_error_message =
     [0x274C] @ u '' Ocorreu um erro de conex'' @ [0xE3] @ u ''o ao tentar buscar na Shopee.''"

definition shopee_url :: "pystr \<Rightarrow> pystr" where
  "shopee_url termo =
     u ''https://shopee.com.br/search?keyword='' @ replace_chr space (u ''%20'') termo"

definition product_links :: "pystr list \<Rightarrow> pystr list" where
  "product_links hrefs = take 3 (filter (contains (u ''/product/'')) hrefs)"

definition buscar_shopee_scraping :: "'v env \<Rightarrow> pystr \<Rightarrow> pystr \<times> 'v event list" where
  "buscar_shopee_scraping env termo =
     (let url = shopee_url termo; request = HttpGet url []
      in case http_shopee env url of
           RequestException \<Rightarrow> (shopee_error_message, [request])
         | Ok hrefs \<Rightarrow>
             let links = product_links hrefs in
             if links = [] then (shopee_fallback termo url, [request])
             else (foldl (\<lambda>message_text il. message_text @ shopee_line il)
                     (shopee_header termo) (enumerate 0 links), [request]))"

section \<open>Assistant client\<close>

definition ai_disabled_message :: pystr where
  "ai_disabled_message =
     [0x274C] @ u '' A funcionalidade de IA est'' @ [0xE1] @
     u '' desativada (chave da OpenAI n'' @ [0xE3] @ u ''o configurada).''"

definition ai_error_message :: pystr where
  "ai_error_message =
     [0x274C] @ u '' Ocorreu um erro ao consultar a Intelig'' @ [0xEA] @
     u ''ncia Artificial. Verifique sua chave ou limites de uso.''"

definition system_prompt :: pystr where
  "system_prompt =
     u ''Voc'' @ [0xEA] @ u '' '' @ [0xE9] @
     u '' o FinanceBot, um assistente financeiro e de compras amig'' @ [0xE1] @ u ''vel. '' @
     u ''Sua fun'' @ [0xE7, 0xE3] @ u ''o '' @ [0xE9] @ u '' analisar o hist'' @ [0xF3] @
     u ''rico de gastos do usu'' @ [0xE1] @ u ''rio e responder a perguntas de forma '' @
     [0xFA] @ u ''til e inteligente, **focando estritamente em gest'' @ [0xE3] @
     u ''o financeira, economia e an'' @ [0xE1] @ u ''lise de gastos**. '' @
     u ''Use os dados fornecidos para dar conselhos financeiros, identificar padr'' @
     [0xF5] @ u ''es de gastos ou responder a perguntas sobre or'' @ [0xE7] @
     u ''amento. **Recuse-se educadamente a responder perguntas que n'' @ [0xE3] @
     u ''o sejam sobre finan'' @ [0xE7] @ u ''as ou o uso do bot.**'' @
     u ''Mantenha a resposta concisa e em portugu'' @ [0xEA] @ u ''s.''"

text \<open>One line of the history; its format \<open>.2f\<close> raises on a value that is \<open>None\<close>.\<close>

definition history_line :: "'v runtime \<Rightarrow> 'v Purchase \<Rightarrow> py_error + pystr" where
  "history_line rt p =
     and_then (format_value rt (value_col p)) (\<lambda>value_2f.
       Inr (u ''- '' @ product p @ u '' (R$ '' @ value_2f @ u '') na categoria '' @
            category p @ u '' em '' @ strftime_dmY rt (date p)))"

definition context_data :: "'v runtime \<Rightarrow> 'v Purchase list \<Rightarrow> py_error + pystr" where
  "context_data rt ps =
     (if ps = [] then
        Inr (u ''O usu'' @ [0xE1] @ u ''rio ainda n'' @ [0xE3] @
             u ''o registrou nenhuma compra.'')
      else
        and_then (collect (map (history_line rt) ps)) (\<lambda>lines.
        and_then (py_sum rt (map value_col ps)) (\<lambda>total_spent.
          Inr (u ''O usu'' @ [0xE1] @ u ''rio j'' @ [0xE1] @ u '' gastou um total de R$ '' @
               format_2f rt total_spent @ u '' em '' @ str_nat (length ps) @
               u '' compras. '' @
               u ''Aqui est'' @ [0xE1] @ u '' o hist'' @ [0xF3] @ u ''rico detalhado:'' @ [10] @
               join [10] lines))))"

definition user_prompt :: "pystr \<Rightarrow> pystr \<Rightarrow> pystr" where
  "user_prompt ctx prompt =
     u ''Contexto de gastos do usu'' @ [0xE1] @ u ''rio:'' @ [10] @ ctx @ [10, 10] @
     u ''Pergunta do usu'' @ [0xE1] @ u ''rio: '' @ prompt"

text \<open>The context is built before the \<open>try\<close>, so its exception leaves the function; the
  exceptions of the request are caught.\<close>

definition analisar_com_ia ::
  "'v runtime \<Rightarrow> 'v env \<Rightarrow> int \<Rightarrow> pystr \<Rightarrow> 'v world \<Rightarrow> (py_error + pystr) \<times> 'v event list"
  where
  "analisar_com_ia rt env uid prompt w =
     (if \<not> openai_client env then (Inr ai_disabled_message, [])
      else
        let ps = filter (\<lambda>p. user_id p = uid) (purchases w)
        in case context_data rt ps of
             Inl e \<Rightarrow> (Inl e, [DbQuery uid])
           | Inr ctx \<Rightarrow>
               (let request = ChatCompletion system_prompt (user_prompt ctx prompt)
                in case chat_completion env system_prompt (user_prompt ctx prompt) of
                     Some content \<Rightarrow> (Inr content, [DbQuery uid, request])
                   | None \<Rightarrow> (Inr ai_error_message, [DbQuery uid, request])))"

section \<open>Handlers of commands and messages\<close>

definition start_text :: pystr where
  "start_text =
     u ''Ol'' @ [0xE1] @ u ''! Eu sou o FinanceBot. Escolha uma op'' @ [0xE7, 0xE3] @
     u ''o abaixo para come'' @ [0xE7] @ u ''ar a economizar e rastrear seus gastos:''"

text \<open>The inline keyboard: the label and the \<open>callback_data\<close> of each button.\<close>

definition keyboard :: "(pystr \<times> pystr) list" where
  "keyboard =
     [([0x1F4B0] @ u '' Melhores Deals (DiscountAPI)'', u ''deals''),
      ([0x1F6CD, 0xFE0F] @ u '' Buscar na Shopee'', u ''shopee_search''),
      ([0x1F4B3] @ u '' Adicionar Compra'', u ''add_purchase''),
      ([0x1F4CA] @ u '' Meus Gastos'', u ''my_expenses''),
      ([0x1F9E0] @ u '' Perguntar '' @ [0xE0] @ u '' IA'', u ''ask_ai''),
      ([0x2753] @ u '' Ajuda'', u ''help'')]"

definition help_text :: pystr where
  "help_text =
     [0x2753] @ u '' **Guia de Uso do FinanceBot** '' @ [0x2753, 10, 10] @
     u ''**'' @ [0x1F4B0] @ u '' Melhores Deals:** Busca as melhores promo'' @ [0xE7, 0xF5] @
     u ''es internacionais (em USD).'' @ [10] @
     u ''**'' @ [0x1F6CD, 0xFE0F] @
     u '' Buscar na Shopee:** Permite buscar produtos na Shopee. Voc'' @ [0xEA] @
     u '' ser'' @ [0xE1] @ u '' solicitado a digitar o termo de busca.'' @ [10] @
     u ''**'' @ [0x1F4B3] @ u '' Adicionar Compra:** Registra uma compra. Use o formato:'' @ [10] @
     u ''   `Produto - Valor - Categoria` (Ex: `iPhone 15 - 5000 - Eletr'' @ [0xF4] @
     u ''nicos`)'' @ [10] @
     u ''**'' @ [0x1F4CA] @ u '' Meus Gastos:** Mostra o resumo das suas compras registradas.'' @
     [10] @
     u ''**'' @ [0x1F9E0] @ u '' Perguntar '' @ [0xE0] @
     u '' IA:** Use a IA para analisar seus gastos e tirar d'' @ [0xFA] @
     u ''vidas financeiras.'' @ [10]"

definition start :: "int \<Rightarrow> 'v world \<Rightarrow> 'v world \<times> 'v event list" where
  "start uid w = (w, [ReplyMenu start_text keyboard])"

definition help_command :: "int \<Rightarrow> 'v world \<Rightarrow> 'v world \<times> 'v event list" where
  "help_command uid w = (w, [ReplyText help_text])"

definition purchase_confirmation :: "'v runtime \<Rightarrow> pystr \<Rightarrow> 'v \<Rightarrow> pystr \<Rightarrow> pystr" where
  "purchase_confirmation rt produto valor categoria =
     [0x2705] @ u '' Compra registrada com sucesso no banco de dados!'' @ [10] @
     u ''Produto: '' @ produto @ [10] @
     u ''Valor: R$ '' @ format_2f rt valor @ [10] @
     u ''Categoria: '' @ categoria"

definition value_error_message :: pystr where
  "value_error_message =
     [0x274C] @ u '' Formato de valor inv'' @ [0xE1] @ u ''lido. Use apenas n'' @ [0xFA] @
     u ''meros (ex: 5000 ou 5000.50).''"

definition format_error_message :: pystr where
  "format_error_message =
     [0x274C] @ u '' Formato incorreto. Use: `Produto - Valor - Categoria`'' @ [10] @
     u ''Exemplo: `iPhone 15 - 5000 - Eletr'' @ [0xF4] @ u ''nicos`''"

definition analysing_message :: pystr where
  "analysing_message = [0x1F9E0] @ u '' Analisando sua pergunta com a IA...''"

definition unrecognized_message :: pystr where
  "unrecognized_message =
     u ''Comando n'' @ [0xE3] @
     u ''o reconhecido. Use /start para ver o menu principal ou /help para o guia de uso.''"

text \<open>The primary key the database gives a new row: one more than the largest in use.\<close>

definition next_id :: "'v Purchase list \<Rightarrow> nat" where
  "next_id rows = Suc (foldl max 0 (map id_col rows))"

text \<open>
  \<open>handle_message\<close>: a text message of user \<open>uid\<close>. The result is the world after the
  handler and the effects in the order the handler performs them. The row that is added
  holds the value as the database stores it; the confirmation shows the value as parsed.
\<close>

definition handle_message ::
  "'v runtime \<Rightarrow> 'v env \<Rightarrow> int \<Rightarrow> pystr \<Rightarrow> 'v world \<Rightarrow> 'v world \<times> 'v event list" where
  "handle_message rt env uid raw w =
     (let text = strip raw; state = user_data w uid in
      if state = Some waiting_shopee_term then
        (let w1 = set_state uid None w;
             r = buscar_shopee_scraping env text
         in (w1, SetState uid None # snd r @ [ReplyText (fst r)]))
      else if state = Some waiting_purchase then
        (let w1 = set_state uid None w;
             parts = map strip (split_sep hyphen text)
         in if length parts = 3 then
              (let produto = parts ! 0; valor_str = parts ! 1; categoria = parts ! 2
               in case pyfloat rt (replace_chr comma [period] valor_str) of
                    Some valor \<Rightarrow>
                      (let new_purchase =
                             \<lparr>id_col = next_id (purchases w1), user_id = uid,
                              product = produto, value_col = stored_value rt valor,
                              category = categoria, date = now env\<rparr>
                       in (w1\<lparr>purchases := purchases w1 @ [new_purchase]\<rparr>,
                           [SetState uid None, DbAdd new_purchase,
                            ReplyText (purchase_confirmation rt produto valor categoria)]))
                  | None \<Rightarrow> (w1, [SetState uid None, ReplyText value_error_message]))
            else (w1, [SetState uid None, ReplyText format_error_message]))
      else if state = Some waiting_ai_prompt then
        (let w1 = set_state uid None w;
             r = analisar_com_ia rt env uid text w1
         in (w1, SetState uid None # ReplyText analysing_message # snd r @
                 send_or_raise ReplyText (fst r)))
      else if openai_client env then
        (let r = analisar_com_ia rt env uid text w
         in (w, ReplyText analysing_message # snd r @ send_or_raise ReplyText (fst r)))
      else (w, [ReplyText unrecognized_message]))"

section \<open>Handler of the inline buttons\<close>

definition ask_shopee_message :: pystr where
  "ask_shopee_message =
     [0x1F6CD, 0xFE0F] @ u '' Por favor, digite o termo que voc'' @ [0xEA] @
     u '' deseja buscar na Shopee (Ex: '' @ [39] @ u ''Xiaomi 14'' @ [39] @ u '').''"

definition add_purchase_message :: pystr where
  "add_purchase_message =
     [0x1F4B3] @ u '' Para registrar uma compra, use o formato:'' @ [10] @
     u ''`Produto - Valor - Categoria`'' @ [10] @
     u ''Exemplo: `iPhone 15 - 5000 - Eletr'' @ [0xF4] @ u ''nicos`''"

definition ask_ai_message :: pystr where
  "ask_ai_message =
     [0x1F9E0] @ u '' Qual sua pergunta? Voc'' @ [0xEA] @ u '' pode pedir uma an'' @ [0xE1] @
     u ''lise dos seus gastos ou uma dica financeira geral.'' @ [10] @
     u ''Ex: '' @ [39] @ u ''Em que categoria eu mais gastei?'' @ [39] @ u '' ou '' @ [39] @
     u ''Devo comprar um novo celular?'' @ [39]"

definition no_purchases_message :: pystr where
  "no_purchases_message =
     [0x1F4CA] @ u '' Voc'' @ [0xEA] @ u '' ainda n'' @ [0xE3] @
     u ''o registrou nenhuma compra no banco de dados.''"

definition expenses_header :: "pystr \<Rightarrow> pystr \<Rightarrow> pystr" where
  "expenses_header total_str count_str =
     [0x1F4CA] @ u '' **Resumo dos Seus Gastos (Persistente)** '' @ [0x1F4CA, 10, 10] @
     u ''Total Gasto: **R$ '' @ total_str @ u ''**'' @ [10] @
     u ''N'' @ [0xFA] @ u ''mero de Compras: **'' @ count_str @ u ''**'' @ [10, 10] @
     u ''**'' @ [0xDA] @ u ''ltimas Compras Registradas:**'' @ [10]"

text \<open>The text one iteration of the loop over \<open>purchases[:5]\<close> appends.\<close>

definition expense_line :: "'v runtime \<Rightarrow> 'v Purchase \<Rightarrow> py_error + pystr" where
  "expense_line rt p =
     and_then (format_value rt (value_col p)) (\<lambda>value_2f.
       Inr (u '' - '' @ product p @ u '' (R$ '' @ value_2f @ u '') - '' @
            category p @ u '' ('' @ strftime_dm rt (date p) @ u '')'' @ [10]))"

text \<open>
  \<open>query(Purchase).filter_by(user_id=...).order_by(Purchase.date.desc()).all()\<close>: the rows
  of the user, latest date first; rows of one date come in the order of their insertion,
  as SQLite returns them.
\<close>

definition order_by_date_desc :: "'v Purchase list \<Rightarrow> 'v Purchase list" where
  "order_by_date_desc rows = sort_key (\<lambda>p. - int (date p)) rows"

definition my_expenses_query :: "int \<Rightarrow> 'v world \<Rightarrow> 'v Purchase list" where
  "my_expenses_query uid w = order_by_date_desc (filter (\<lambda>p. user_id p = uid) (purchases w))"

definition handle_callback ::
  "'v runtime \<Rightarrow> 'v env \<Rightarrow> int \<Rightarrow> pystr \<Rightarrow> 'v world \<Rightarrow> 'v world \<times> 'v event list" where
  "handle_callback rt env uid data w =
     (if data = u ''deals'' then
        (let r = buscar_discount_api_real rt env
         in (w, AnswerQuery # snd r @ send_or_raise EditText (fst r)))
      else if data = u ''shopee_search'' then
        (set_state uid (Some waiting_shopee_term) w,
         [AnswerQuery, SetState uid (Some waiting_shopee_term), EditText ask_shopee_message])
      else if data = u ''add_purchase'' then
        (set_state uid (Some waiting_purchase) w,
         [AnswerQuery, SetState uid (Some waiting_purchase), EditText add_purchase_message])
      else if data = u ''ask_ai'' then
        (if \<not> openai_client env then (w, [AnswerQuery, EditText ai_disabled_message])
         else (set_state uid (Some waiting_ai_prompt) w,
               [AnswerQuery, SetState uid (Some waiting_ai_prompt), EditText ask_ai_message]))
      else if data = u ''my_expenses'' then
        (let ps = my_expenses_query uid w in
         if ps = [] then (w, [AnswerQuery, DbQuery uid, EditText no_purchases_message])
         else
           (let message_text =
                  and_then (py_sum rt (map value_col ps)) (\<lambda>total_spent.
                    append_all
                      (expenses_header (format_2f rt total_spent) (str_nat (length ps)))
                      (map (expense_line rt) (take 5 ps)))
            in (w, [AnswerQuery, DbQuery uid] @ send_or_raise EditText message_text)))
      else if data = u ''help'' then
        (let r = help_command uid w in (fst r, AnswerQuery # snd r))
      else (w, [AnswerQuery]))"

section \<open>The application: which handler takes which event\<close>

text \<open>
  An update is a message with its text or a click on a button with its data. A message
  that starts with a command (a slash and at least one letter, digit or underscore, which
  Telegram marks as a command) passes \<open>filters.COMMAND\<close>: it goes to the handler registered
  under its name in lower case, if there is one, and never to \<open>handle_message\<close>. A command
  addressed to a bot by name (\<open>/start@name\<close>) is taken as addressed to this one.
\<close>

datatype inbound =
    Message pystr
  | Callback pystr

definition is_cmd_char :: "nat \<Rightarrow> bool" where
  "is_cmd_char c \<longleftrightarrow>
     (48 \<le> c \<and> c \<le> 57) \<or> (65 \<le> c \<and> c \<le> 90) \<or> (97 \<le> c \<and> c \<le> 122) \<or> c = underscore"

definition command_of :: "pystr \<Rightarrow> pystr option" where
  "command_of raw =
     (case raw of
        [] \<Rightarrow> None
      | c # cs \<Rightarrow>
          if c = slash \<and> takeWhile is_cmd_char cs \<noteq> []
          then Some (map lower_ascii (takeWhile is_cmd_char cs)) else None)"

definition dispatch ::
  "'v runtime \<Rightarrow> 'v env \<Rightarrow> int \<Rightarrow> inbound \<Rightarrow> 'v world \<Rightarrow> 'v world \<times> 'v event list" where
  "dispatch rt env uid ev w =
     (case ev of
        Message raw \<Rightarrow>
          (case command_of raw of
             None \<Rightarrow> handle_message rt env uid raw w
           | Some c \<Rightarrow>
               if c = u ''start'' then start uid w
               else if c = u ''help'' then help_command uid w
               else (w, []))
      | Callback data \<Rightarrow> handle_callback rt env uid data w)"

definition outbound :: "'v event list \<Rightarrow> 'v event list" where
  "outbound evs = filter is_outbound evs"

text \<open>A handler returns when its trace holds no exception.\<close>

definition returns :: "'v event list \<Rightarrow> bool" where
  "returns evs \<longleftrightarrow> (\<forall>e. Raised e \<notin> set evs)"

text \<open>The text messages that are answered as a question to the assistant.\<close>

definition ai_question :: "'v env \<Rightarrow> int \<Rightarrow> 'v world \<Rightarrow> bool" where
  "ai_question env uid w \<longleftrightarrow>
     user_data w uid = Some waiting_ai_prompt \<or> (user_data w uid = None \<and> openai_client env)"

text \<open>No row of the user holds \<open>NULL\<close> as its value.\<close>

definition no_null :: "int \<Rightarrow> 'v world \<Rightarrow> bool" where
  "no_null uid w \<longleftrightarrow> (\<forall>p\<in>set (purchases w). user_id p = uid \<longrightarrow> value_col p \<noteq> None)"

text \<open>The updates that a handler takes: a message that is no command or the command
  \<open>start\<close> or \<open>help\<close>, and a click on one of the six buttons of the keyboard.\<close>

definition handled :: "inbound \<Rightarrow> bool" where
  "handled ev =
     (case ev of
        Message raw \<Rightarrow>
          (case command_of raw of None \<Rightarrow> True | Some c \<Rightarrow> c = u ''start'' \<or> c = u ''help'')
      | Callback data \<Rightarrow> data \<in> snd ` set keyboard)"

section \<open>A runtime for whole amounts\<close>

text \<open>
  An instance of the runtime, used in the examples: \<open>float\<close> on the texts that are an
  integer literal with an optional minus sign, where it yields that integer, the two
  formats of an integer (\<open>5000.00\<close>, \<open>5000.0\<close>), integer addition, and the days of
  January 2025 as dates.
\<close>

fun nat_of_digits :: "nat \<Rightarrow> pystr \<Rightarrow> nat option" where
  "nat_of_digits acc [] = Some acc"
| "nat_of_digits acc (c # cs) =
     (if 48 \<le> c \<and> c \<le> 57 then nat_of_digits (10 * acc + (c - 48)) cs else None)"

definition int_float :: "pystr \<Rightarrow> int option" where
  "int_float s =
     (case strip s of
        [] \<Rightarrow> None
      | c # cs \<Rightarrow>
          if c = hyphen then (if cs = [] then None else map_option (\<lambda>n. - int n) (nat_of_digits 0 cs))
          else map_option int (nat_of_digits 0 (c # cs)))"

definition int_format :: "pystr \<Rightarrow> int \<Rightarrow> pystr" where
  "int_format zeros v = (if v < 0 then [hyphen] else []) @ str_nat (nat \<bar>v\<bar>) @ [period] @ zeros"

definition pad2 :: "nat \<Rightarrow> pystr" where
  "pad2 n = (if n < 10 then u ''0'' @ str_nat n else str_nat n)"

text \<open>\<open>str\<close> of a JSON value that is no text; that of a list or a dictionary is
  abbreviated.\<close>

definition int_str :: "int json \<Rightarrow> pystr" where
  "int_str j =
     (case j of
        JNull \<Rightarrow> u ''None''
      | JBool b \<Rightarrow> (if b then u ''True'' else u ''False'')
      | JNum n \<Rightarrow> (if n < 0 then [hyphen] else []) @ str_nat (nat \<bar>n\<bar>)
      | JStr s \<Rightarrow> s
      | JList xs \<Rightarrow> u ''[...]''
      | JObj kvs \<Rightarrow> u ''{...}'')"

definition int_runtime :: "int runtime" where
  "int_runtime =
     \<lparr>pyfloat = int_float, isnan = (\<lambda>v. False), num_bool = (\<lambda>v. v \<noteq> 0), py_int = (\<lambda>i. i),
      float_add = (+), format_2f = int_format (u ''00''), format_1f = int_format (u ''0''),
      py_str = int_str,
      strftime_dmY = (\<lambda>d. pad2 d @ u ''/01/2025''), strftime_dm = (\<lambda>d. pad2 d @ u ''/01'')\<rparr>"

text \<open>
  The same runtime with the float NaN: \<open>float\<close> returns it for the text \<open>nan\<close>, in any
  case of its letters, a sum that it enters is NaN, and its formats are \<open>nan\<close>.
\<close>

datatype amount = Amount int | NaN

definition nan_float :: "pystr \<Rightarrow> amount option" where
  "nan_float s =
     (if map lower_ascii (strip s) = u ''nan'' then Some NaN
      else map_option Amount (int_float s))"

definition nan_add :: "amount \<Rightarrow> amount \<Rightarrow> amount" where
  "nan_add a b =
     (case a of NaN \<Rightarrow> NaN | Amount x \<Rightarrow> (case b of NaN \<Rightarrow> NaN | Amount y \<Rightarrow> Amount (x + y)))"

definition nan_format :: "pystr \<Rightarrow> amount \<Rightarrow> pystr" where
  "nan_format zeros a = (case a of NaN \<Rightarrow> u ''nan'' | Amount v \<Rightarrow> int_format zeros v)"

definition nan_str :: "amount json \<Rightarrow> pystr" where
  "nan_str j =
     (case j of
        JNull \<Rightarrow> u ''None''
      | JBool b \<Rightarrow> (if b then u ''True'' else u ''False'')
      | JNum a \<Rightarrow>
          (case a of NaN \<Rightarrow> u ''nan''
           | Amount n \<Rightarrow> (if n < 0 then [hyphen] else []) @ str_nat (nat \<bar>n\<bar>))
      | JStr s \<Rightarrow> s
      | JList xs \<Rightarrow> u ''[...]''
      | JObj kvs \<Rightarrow> u ''{...}'')"

definition nan_runtime :: "amount runtime" where
  "nan_runtime =
     \<lparr>pyfloat = nan_float, isnan = (\<lambda>a. a = NaN), num_bool = (\<lambda>a. a \<noteq> Amount 0),
      py_int = Amount, float_add = nan_add,
      format_2f = nan_format (u ''00''), format_1f = nan_format (u ''0''),
      py_str = nan_str,
      strftime_dmY = (\<lambda>d. pad2 d @ u ''/01/2025''), strftime_dm = (\<lambda>d. pad2 d @ u ''/01'')\<rparr>"

text \<open>An environment without credentials whose services find nothing, and one with the
  assistant configured.\<close>

definition demo_env :: "int env" where
  "demo_env =
     \<lparr>openai_client = False, DISCOUNT_API_KEY = None, now = 3,
      http_shopee = (\<lambda>a. Ok []), http_deals = Ok (JObj [(u ''deals'', JList [])]),
      chat_completion = (\<lambda>s p. None)\<rparr>"

definition demo_env_ai :: "int env" where
  "demo_env_ai = demo_env\<lparr>openai_client := True, chat_completion := (\<lambda>s p. Some (u ''ok''))\<rparr>"

text \<open>User 7 has just selected "add purchase"; nothing is stored yet.\<close>

definition demo_world :: "int world" where
  "demo_world = \<lparr>user_data = (\<lambda>i. None)(7 := Some waiting_purchase), purchases = []\<rparr>"

text \<open>User 7 has just selected "search".\<close>

definition demo_world_search :: "int world" where
  "demo_world_search = \<lparr>user_data = (\<lambda>i. None)(7 := Some waiting_shopee_term), purchases = []\<rparr>"

text \<open>Nobody has a pending state; nothing is stored.\<close>

definition empty_world :: "int world" where
  "empty_world = \<lparr>user_data = (\<lambda>i. None), purchases = []\<rparr>"




text \<open>A table of seven purchases on seven days, six of user 7 and one of user 8.\<close>

definition book :: "nat \<Rightarrow> int \<Rightarrow> int \<Rightarrow> nat \<Rightarrow> int Purchase" where
  "book i uid v d =
     \<lparr>id_col = i, user_id = uid, product = u ''Book'', value_col = Some v,
      category = u ''Fun'',
      date = d\<rparr>"

definition demo_world_expenses :: "int world" where
  "demo_world_expenses =
     \<lparr>user_data = (\<lambda>i. None),
      purchases = [book 1 7 10 1, book 2 7 20 2, book 3 8 5 3, book 4 7 30 4, book 5 7 40 5,
                   book 6 7 50 6, book 7 7 60 7]\<rparr>"

text \<open>With the float NaN: user 7 has just selected "add purchase", nothing is stored yet.\<close>

definition nan_env :: "amount env" where
  "nan_env =
     \<lparr>openai_client = False, DISCOUNT_API_KEY = None, now = 3,
      http_shopee = (\<lambda>a. Ok []), http_deals = Ok (JObj [(u ''deals'', JList [])]),
      chat_completion = (\<lambda>s p. None)\<rparr>"

definition nan_world :: "amount world" where
  "nan_world = \<lparr>user_data = (\<lambda>i. None)(7 := Some waiting_purchase), purchases = []\<rparr>"

text \<open>The row that the entry \<open>x - nan - y\<close> of user 7 leaves in an empty table.\<close>

definition nan_row :: "amount Purchase" where
  "nan_row =
     \<lparr>id_col = 1, user_id = 7, product = u ''x'', value_col = None, category = u ''y'',
      date = 3\<rparr>"

text \<open>The world after that entry.\<close>

definition nan_world_after :: "amount world" where
  "nan_world_after =
     nan_world\<lparr>user_data := (user_data nan_world)(7 := None), purchases := [nan_row]\<rparr>"

section \<open>Auxiliary facts\<close>

lemma length_split_sep: "length (split_sep sep s) = Suc (count_list s sep)"
  by (induction s) (auto split: list.splits)

lemma split_sep_not_Nil: "split_sep sep s \<noteq> []"
  by (induction s) (auto split: list.splits)

lemma count_list_dropWhile: "\<not> P c \<Longrightarrow> count_list (dropWhile P s) c = count_list s c"
  by (induction s) auto

lemma count_list_rev: "count_list (rev s) c = count_list s c"
  by (induction s) auto

lemma count_list_strip: "\<not> isspace c \<Longrightarrow> count_list (strip s) c = count_list s c"
  by (simp add: strip_def count_list_rev count_list_dropWhile)

lemma not_isspace_hyphen: "\<not> isspace hyphen"
  by (simp add: isspace_def hyphen_def)

lemma foldl_append_concat: "foldl (\<lambda>acc x. acc @ f x) a xs = a @ concat (map f xs)"
  by (induction xs arbitrary: a) auto

lemma split_fields_no_sep: "p \<in> set (split_sep sep s) \<Longrightarrow> sep \<notin> set p"
  by (induction s arbitrary: p) (auto split: if_splits list.splits)

lemma set_strip: "set (strip s) \<subseteq> set s"
proof -
  have "set (strip s) \<subseteq> set (dropWhile isspace s)"
    unfolding strip_def using set_dropWhileD by fastforce
  also have "\<dots> \<subseteq> set s"
    using set_dropWhileD by fastforce
  finally show ?thesis .
qed

lemma append_all_map:
  "(\<forall>x\<in>set xs. f x = Inr (g x)) \<Longrightarrow> append_all acc (map f xs) = Inr (acc @ concat (map g xs))"
  by (induction xs arbitrary: acc) auto

lemma sum_from_Some: "sum_from rt acc (map Some vs) = Inr (foldl (float_add rt) acc vs)"
  by (induction vs arbitrary: acc) auto

lemma sum_from_None: "None \<in> set xs \<Longrightarrow> sum_from rt acc xs = Inl TypeError"
  by (induction rt acc xs rule: sum_from.induct) auto

lemma sum_from_no_None:
  "None \<notin> set xs \<Longrightarrow> sum_from rt acc xs = Inr (foldl (float_add rt) acc (map the xs))"
  by (induction rt acc xs rule: sum_from.induct) auto

lemma collect_map:
  "(\<forall>x\<in>set xs. f x = Inr (g x)) \<Longrightarrow> collect (map f xs) = Inr (map g xs)"
  by (induction xs) auto

lemma collect_returns: "(\<forall>r\<in>set rs. \<exists>x. r = Inr x) \<Longrightarrow> \<exists>xs. collect rs = Inr xs"
  by (induction rs) auto

section \<open>Rows whose value is not NULL\<close>

lemma py_sum_no_None:
  "None \<notin> set xs \<Longrightarrow> py_sum rt xs = Inr (foldl (float_add rt) (py_int rt 0) (map the xs))"
  by (simp add: py_sum_def sum_from_no_None)

lemma py_sum_None: "None \<in> set xs \<Longrightarrow> py_sum rt xs = Inl TypeError"
  by (simp add: py_sum_def sum_from_None)

lemma history_line_value:
  "value_col p \<noteq> None \<Longrightarrow>
   history_line rt p =
     Inr (u ''- '' @ product p @ u '' (R$ '' @ format_2f rt (the (value_col p)) @
          u '') na categoria '' @ category p @ u '' em '' @ strftime_dmY rt (date p))"
  by (auto simp add: history_line_def format_value_def and_then_def)

lemma expense_line_value:
  "value_col p \<noteq> None \<Longrightarrow>
   expense_line rt p =
     Inr (u '' - '' @ product p @ u '' (R$ '' @ format_2f rt (the (value_col p)) @ u '') - '' @
          category p @ u '' ('' @ strftime_dm rt (date p) @ u '')'' @ [10])"
  by (auto simp add: expense_line_def format_value_def and_then_def)

lemma context_data_returns:
  assumes "\<forall>p\<in>set ps. value_col p \<noteq> None"
  shows "\<exists>ctx. context_data rt ps = Inr ctx"
proof (cases "ps = []")
  case True
  then show ?thesis by (simp add: context_data_def)
next
  case False
  have "\<forall>p\<in>set ps. history_line rt p =
      Inr (u ''- '' @ product p @ u '' (R$ '' @ format_2f rt (the (value_col p)) @
          u '') na categoria '' @ category p @ u '' em '' @ strftime_dmY rt (date p))"
    using assms by (simp add: history_line_value)
  then have "\<forall>r\<in>set (map (history_line rt) ps). \<exists>x. r = Inr x"
    by auto
  then have c: "\<exists>ls. collect (map (history_line rt) ps) = Inr ls"
    by (rule collect_returns)
  have "None \<notin> set (map value_col ps)"
    using assms by auto
  then have "\<exists>t. py_sum rt (map value_col ps) = Inr t"
    using py_sum_no_None by blast
  with c False show ?thesis
    by (auto simp add: context_data_def and_then_def)
qed

lemma analisar_returns:
  assumes "no_null uid w"
  shows "\<exists>answer. fst (analisar_com_ia rt env uid prompt w) = Inr answer"
proof -
  have "\<forall>p\<in>set (filter (\<lambda>p. user_id p = uid) (purchases w)). value_col p \<noteq> None"
    using assms by (simp add: no_null_def)
  then obtain ctx where "context_data rt (filter (\<lambda>p. user_id p = uid) (purchases w)) = Inr ctx"
    using context_data_returns by blast
  then show ?thesis
    by (simp add: analisar_com_ia_def Let_def split: option.splits)
qed

lemma analisar_answer:
  assumes "fst (analisar_com_ia rt env uid prompt w) = Inr answer"
  shows "answer = ai_disabled_message \<or> answer = ai_error_message \<or>
         (\<exists>question. chat_completion env system_prompt question = Some answer)"
  using assms
  by (auto simp add: analisar_com_ia_def Let_def split: if_splits sum.splits option.splits)

lemma analisar_set_state:
  "analisar_com_ia rt env uid prompt (set_state i s w) = analisar_com_ia rt env uid prompt w"
  by (simp add: analisar_com_ia_def set_state_def)

lemma no_null_set_state: "no_null uid (set_state i s w) = no_null uid w"
  by (simp add: no_null_def set_state_def)

lemma set_order_by_date_desc: "set (order_by_date_desc rows) = set rows"
  by (simp add: order_by_date_desc_def)

lemma my_expenses_query_value:
  "no_null uid w \<Longrightarrow> p \<in> set (my_expenses_query uid w) \<Longrightarrow> value_col p \<noteq> None"
  by (auto simp add: my_expenses_query_def set_order_by_date_desc no_null_def)

lemma my_expenses_message:
  assumes "no_null uid w" and "ps = my_expenses_query uid w"
  shows "and_then (py_sum rt (map value_col ps)) (\<lambda>total_spent.
           append_all (expenses_header (format_2f rt total_spent) (str_nat (length ps)))
             (map (expense_line rt) (take 5 ps))) =
         Inr (expenses_header
                (format_2f rt (foldl (float_add rt) (py_int rt 0) (map (\<lambda>p. the (value_col p)) ps)))
                (str_nat (length ps)) @
              concat (map (\<lambda>p. u '' - '' @ product p @ u '' (R$ '' @
                                format_2f rt (the (value_col p)) @ u '') - '' @ category p @
                                u '' ('' @ strftime_dm rt (date p) @ u '')'' @ [10])
                        (take 5 ps)))"
proof -
  have v: "\<forall>p\<in>set ps. value_col p \<noteq> None"
    using assms my_expenses_query_value by blast
  then have "None \<notin> set (map value_col ps)"
    by auto
  then have s: "py_sum rt (map value_col ps) =
      Inr (foldl (float_add rt) (py_int rt 0) (map (\<lambda>p. the (value_col p)) ps))"
    by (simp add: py_sum_no_None comp_def)
  have "\<forall>p\<in>set (take 5 ps). value_col p \<noteq> None"
    using v by (auto dest: in_set_takeD)
  then have "\<forall>p\<in>set (take 5 ps). expense_line rt p =
      Inr (u '' - '' @ product p @ u '' (R$ '' @ format_2f rt (the (value_col p)) @ u '') - '' @
           category p @ u '' ('' @ strftime_dm rt (date p) @ u '')'' @ [10])"
    by (simp add: expense_line_value)
  then show ?thesis
    by (simp only: s and_then_def sum.case append_all_map)
qed

section \<open>Registering a purchase\<close>

lemma iphone_fields:
  "map strip (split_sep hyphen (strip (u ''iPhone 15 - 5000 - Eletr'' @ [0xF4] @ u ''nicos''))) =
     [u ''iPhone 15'', u ''5000'', u ''Eletr'' @ [0xF4] @ u ''nicos'']"
  by (simp add: u_def strip_def isspace_def hyphen_def)

lemma float_5000: "pyfloat int_runtime (replace_chr comma [period] (u ''5000'')) = Some 5000"
  by (simp add: int_runtime_def int_float_def replace_chr_def u_def strip_def isspace_def
      hyphen_def comma_def period_def)

lemma format_5000: "format_2f int_runtime 5000 = u ''5000.00''"
  by (simp add: int_runtime_def int_format_def str_nat.simps u_def period_def)

lemma not_nan_5000: "\<not> isnan int_runtime 5000"
  by (simp add: int_runtime_def)

text \<open>
  The part of claim C1 that the code keeps. A text message received while the pending
  state of the user is \<open>waiting_purchase\<close>, whose split on the hyphen gives exactly three
  trimmed fields, the second of which \<open>float\<close> turns into a number other than NaN once its
  commas are periods: exactly one purchase is added to the table, with these fields as
  product, value and category, the pending state of the user is \<open>None\<close> afterwards, and
  the only message sent is the confirmation, which shows the product, the value in the
  format \<open>.2f\<close> and the category.
\<close>

lemma purchase_registered:
  assumes "user_data w uid = Some waiting_purchase"
    and "map strip (split_sep hyphen (strip raw)) = [produto, valor_str, categoria]"
    and "pyfloat rt (replace_chr comma [period] valor_str) = Some valor"
    and "\<not> isnan rt valor"
  shows "\<exists>p. handle_message rt env uid raw w =
           (w\<lparr>user_data := (user_data w)(uid := None), purchases := purchases w @ [p]\<rparr>,
            [SetState uid None, DbAdd p,
             ReplyText
               ([0x2705] @ u '' Compra registrada com sucesso no banco de dados!'' @ [10] @
                u ''Produto: '' @ produto @ [10] @
                u ''Valor: R$ '' @ format_2f rt valor @ [10] @
                u ''Categoria: '' @ categoria)]) \<and>
         user_id p = uid \<and> product p = produto \<and> value_col p = Some valor \<and>
         category p = categoria"
  using assms
  by (simp add: handle_message_def Let_def set_state_def purchase_confirmation_def
      stored_value_def del: length_map)

text \<open>The example of the help text, \<open>iPhone 15 - 5000 - Eletr\<close>\<open>nicos\<close> with its accented
  letter, on the runtime for whole amounts.\<close>

lemma purchase_registered_example:
  "\<exists>p. handle_message int_runtime demo_env 7
          (u ''iPhone 15 - 5000 - Eletr'' @ [0xF4] @ u ''nicos'') demo_world =
          (demo_world\<lparr>user_data := (user_data demo_world)(7 := None), purchases := [p]\<rparr>,
           [SetState 7 None, DbAdd p,
            ReplyText ([0x2705] @ u '' Compra registrada com sucesso no banco de dados!'' @ [10] @
              u ''Produto: iPhone 15'' @ [10] @ u ''Valor: R$ 5000.00'' @ [10] @
              u ''Categoria: Eletr'' @ [0xF4] @ u ''nicos'')]) \<and>
        user_id p = 7 \<and> product p = u ''iPhone 15'' \<and> value_col p = Some 5000 \<and>
        category p = u ''Eletr'' @ [0xF4] @ u ''nicos''"
proof -
  have s: "user_data demo_world 7 = Some waiting_purchase"
    by (simp add: demo_world_def)
  have c: "[0x2705] @ u '' Compra registrada com sucesso no banco de dados!'' @ [10] @
             u ''Produto: '' @ u ''iPhone 15'' @ [10] @
             u ''Valor: R$ '' @ u ''5000.00'' @ [10] @
             u ''Categoria: '' @ u ''Eletr'' @ [0xF4] @ u ''nicos'' =
           [0x2705] @ u '' Compra registrada com sucesso no banco de dados!'' @ [10] @
             u ''Produto: iPhone 15'' @ [10] @ u ''Valor: R$ 5000.00'' @ [10] @
             u ''Categoria: Eletr'' @ [0xF4] @ u ''nicos''"
    by (simp add: u_def)
  have p: "purchases demo_world = []"
    by (simp add: demo_world_def)
  from purchase_registered [OF s iphone_fields float_5000 not_nan_5000, of demo_env]
  show ?thesis
    by (simp only: format_5000 p c append_Nil)
qed

lemma nan_fields:
  "map strip (split_sep hyphen (strip (u ''x - nan - y''))) = [u ''x'', u ''nan'', u ''y'']"
  by (simp add: u_def strip_def isspace_def hyphen_def)

lemma float_nan: "pyfloat nan_runtime (replace_chr comma [period] (u ''nan'')) = Some NaN"
  by (simp add: nan_runtime_def nan_float_def replace_chr_def u_def strip_def isspace_def
      lower_ascii_def comma_def period_def)

lemma nan_entry:
  "handle_message nan_runtime nan_env 7 (u ''x - nan - y'') nan_world =
     (nan_world\<lparr>user_data := (user_data nan_world)(7 := None), purchases := [nan_row]\<rparr>,
      [SetState 7 None, DbAdd nan_row,
       ReplyText ([0x2705] @ u '' Compra registrada com sucesso no banco de dados!'' @ [10] @
         u ''Produto: x'' @ [10] @ u ''Valor: R$ nan'' @ [10] @ u ''Categoria: y'')])"
proof -
  have s: "user_data nan_world 7 = Some waiting_purchase"
    by (simp add: nan_world_def)
  have n: "next_id (purchases (set_state 7 None nan_world)) = 1" "now nan_env = 3"
    "purchases (set_state 7 None nan_world) = []"
    by (simp_all add: next_id_def set_state_def nan_world_def nan_env_def)
  have v: "stored_value nan_runtime NaN = None" "format_2f nan_runtime NaN = u ''nan''"
    by (simp_all add: stored_value_def nan_runtime_def nan_format_def)
  have c: "purchase_confirmation nan_runtime (u ''x'') NaN (u ''y'') =
       [0x2705] @ u '' Compra registrada com sucesso no banco de dados!'' @ [10] @
         u ''Produto: x'' @ [10] @ u ''Valor: R$ nan'' @ [10] @ u ''Categoria: y''"
    by (simp add: purchase_confirmation_def v) (simp add: u_def)
  show ?thesis
    using s nan_fields float_nan n v
    by (simp add: handle_message_def Let_def c nan_row_def set_state_def del: length_map)
qed

text \<open>
  Claim C1 at the entry \<open>x - nan - y\<close>. The text has three fields and \<open>float\<close> accepts the
  second: it is the float NaN. A purchase is added, but the value the table holds for it
  is \<open>NULL\<close>, not the value parsed, and the confirmation shows \<open>nan\<close>, no amount with two
  decimal places.
\<close>

theorem nan_purchase_stored_as_null:
  "user_data nan_world 7 = Some waiting_purchase \<and>
   map strip (split_sep hyphen (strip (u ''x - nan - y''))) = [u ''x'', u ''nan'', u ''y''] \<and>
   pyfloat nan_runtime (replace_chr comma [period] (u ''nan'')) = Some NaN \<and>
   handle_message nan_runtime nan_env 7 (u ''x - nan - y'') nan_world =
     (nan_world\<lparr>user_data := (user_data nan_world)(7 := None), purchases := [nan_row]\<rparr>,
      [SetState 7 None, DbAdd nan_row,
       ReplyText ([0x2705] @ u '' Compra registrada com sucesso no banco de dados!'' @ [10] @
         u ''Produto: x'' @ [10] @ u ''Valor: R$ nan'' @ [10] @ u ''Categoria: y'')]) \<and>
   value_col nan_row = None \<and> value_col nan_row \<noteq> Some NaN"
  using nan_fields float_nan nan_entry by (simp add: nan_world_def nan_row_def)

section \<open>Rejecting a malformed purchase\<close>

lemma format_error_not_value_error: "format_error_message \<noteq> value_error_message"
  by (simp add: format_error_message_def value_error_message_def u_def)

lemma cinco_mil_fields:
  "map strip (split_sep hyphen
     (strip (u ''iPhone 15 - cinco mil - Eletr'' @ [0xF4] @ u ''nicos''))) =
     [u ''iPhone 15'', u ''cinco mil'', u ''Eletr'' @ [0xF4] @ u ''nicos'']"
  by (simp add: u_def strip_def isspace_def hyphen_def)

lemma float_cinco_mil:
  "pyfloat int_runtime (replace_chr comma [period] (u ''cinco mil'')) = None"
  by (simp add: int_runtime_def int_float_def replace_chr_def u_def strip_def isspace_def
      hyphen_def comma_def period_def)

text \<open>
  Claim C2, as the code has it. A text message received while the pending state of the
  user is \<open>waiting_purchase\<close>, whose split on the hyphen gives a number of fields other than
  three, or three fields the second of which \<open>float\<close> rejects once its commas are periods:
  the table of purchases is unchanged, the only message sent is the corrective one (the
  format error in the first case, the value error in the second, two different texts), and
  the one change of state is that the pending state of the user becomes \<open>None\<close>.
\<close>

theorem purchase_rejected:
  assumes "user_data w uid = Some waiting_purchase"
    and "parts = map strip (split_sep hyphen (strip raw))"
    and "length parts \<noteq> 3 \<or>
         (length parts = 3 \<and> pyfloat rt (replace_chr comma [period] (parts ! 1)) = None)"
  shows "handle_message rt env uid raw w =
           (w\<lparr>user_data := (user_data w)(uid := None)\<rparr>,
            [SetState uid None,
             ReplyText (if length parts \<noteq> 3 then format_error_message
                        else value_error_message)]) \<and>
         purchases (fst (handle_message rt env uid raw w)) = purchases w \<and>
         format_error_message \<noteq> value_error_message"
  using assms format_error_not_value_error
  by (auto simp add: handle_message_def Let_def set_state_def simp del: length_map)

text \<open>The example \<open>iPhone 15 - cinco mil - Eletr\<close>\<open>nicos\<close>, whose value is no number, and an
  entry without any hyphen.\<close>

theorem purchase_rejected_witness:
  "user_data demo_world 7 = Some waiting_purchase \<and>
   handle_message int_runtime demo_env 7
     (u ''iPhone 15 - cinco mil - Eletr'' @ [0xF4] @ u ''nicos'') demo_world =
     (demo_world\<lparr>user_data := (user_data demo_world)(7 := None)\<rparr>,
      [SetState 7 None, ReplyText value_error_message]) \<and>
   handle_message int_runtime demo_env 7 (u ''iPhone 15 5000'') demo_world =
     (demo_world\<lparr>user_data := (user_data demo_world)(7 := None)\<rparr>,
      [SetState 7 None, ReplyText format_error_message])"
proof -
  have s: "user_data demo_world 7 = Some waiting_purchase"
    by (simp add: demo_world_def)
  have v: "length [u ''iPhone 15'', u ''cinco mil'', u ''Eletr'' @ [0xF4] @ u ''nicos''] \<noteq> 3 \<or>
        (length [u ''iPhone 15'', u ''cinco mil'', u ''Eletr'' @ [0xF4] @ u ''nicos''] = 3 \<and>
         pyfloat int_runtime (replace_chr comma [period]
           ([u ''iPhone 15'', u ''cinco mil'', u ''Eletr'' @ [0xF4] @ u ''nicos''] ! 1)) = None)"
    using float_cinco_mil by simp
  have f: "map strip (split_sep hyphen (strip (u ''iPhone 15 5000''))) = [u ''iPhone 15 5000'']"
    by (simp add: u_def strip_def isspace_def hyphen_def)
  have g: "length [u ''iPhone 15 5000''] \<noteq> 3 \<or>
        (length [u ''iPhone 15 5000''] = 3 \<and>
         pyfloat int_runtime (replace_chr comma [period] ([u ''iPhone 15 5000''] ! 1)) = None)"
    by simp
  from purchase_rejected [OF s cinco_mil_fields [symmetric] v, of demo_env]
    purchase_rejected [OF s f [symmetric] g, of demo_env]
  show ?thesis
    using s by simp
qed

text \<open>
  Claim C2 as stated excludes every mutation of state. The handler clears the pending
  state before it validates the text: after the entry \<open>iPhone 15 5000\<close>, a single field,
  the format error is sent and the pending state of user 7 has changed from
  \<open>waiting_purchase\<close> to \<open>None\<close>.
\<close>

theorem purchase_rejected_mutates_state:
  "user_data demo_world 7 = Some waiting_purchase \<and>
   length (map strip (split_sep hyphen (strip (u ''iPhone 15 5000'')))) \<noteq> 3 \<and>
   snd (handle_message int_runtime demo_env 7 (u ''iPhone 15 5000'') demo_world) =
     [SetState 7 None, ReplyText format_error_message] \<and>
   user_data (fst (handle_message int_runtime demo_env 7 (u ''iPhone 15 5000'') demo_world)) 7
     = None \<and>
   fst (handle_message int_runtime demo_env 7 (u ''iPhone 15 5000'') demo_world) \<noteq> demo_world"
proof -
  have f: "map strip (split_sep hyphen (strip (u ''iPhone 15 5000''))) = [u ''iPhone 15 5000'']"
    by (simp add: u_def strip_def isspace_def hyphen_def)
  have s: "user_data demo_world 7 = Some waiting_purchase"
    by (simp add: demo_world_def)
  have h: "handle_message int_runtime demo_env 7 (u ''iPhone 15 5000'') demo_world =
     (demo_world\<lparr>user_data := (user_data demo_world)(7 := None)\<rparr>,
      [SetState 7 None, ReplyText format_error_message])"
    using s f by (simp add: handle_message_def Let_def set_state_def del: length_map)
  have "user_data (demo_world\<lparr>user_data := (user_data demo_world)(7 := None)\<rparr>) 7
          \<noteq> user_data demo_world 7"
    using s by simp
  then have "demo_world\<lparr>user_data := (user_data demo_world)(7 := None)\<rparr> \<noteq> demo_world"
    by metis
  then show ?thesis
    using s f h by simp
qed

section \<open>The pending state is used once\<close>

lemma analisar_no_SetState:
  "e \<in> set (snd (analisar_com_ia rt env uid prompt w)) \<Longrightarrow> e \<noteq> SetState i s"
  by (auto simp add: analisar_com_ia_def Let_def split: if_splits option.splits sum.splits)

lemma send_or_raise_no_SetState:
  "e \<in> set (send_or_raise ReplyText r) \<Longrightarrow> e \<noteq> SetState i s"
  by (auto simp add: send_or_raise_def split: sum.splits)

lemma shopee_no_SetState:
  "e \<in> set (snd (buscar_shopee_scraping env termo)) \<Longrightarrow> e \<noteq> SetState i s"
  by (auto simp add: buscar_shopee_scraping_def Let_def split: if_splits response.splits)

lemma handle_message_clears_first:
  assumes "user_data w uid = Some st"
  shows "\<exists>rest. snd (handle_message rt env uid raw w) = SetState uid None # rest \<and>
           (\<forall>e\<in>set rest. \<forall>i s. e \<noteq> SetState i s)"
proof (cases st)
  case waiting_shopee_term
  with assms show ?thesis
    by (auto simp add: handle_message_def Let_def dest: shopee_no_SetState)
next
  case waiting_purchase
  with assms show ?thesis
    by (auto simp add: handle_message_def Let_def simp del: length_map split: option.splits)
next
  case waiting_ai_prompt
  with assms show ?thesis
    by (auto simp add: handle_message_def Let_def
        dest: analisar_no_SetState send_or_raise_no_SetState)
qed

lemma handle_message_state_after:
  assumes "user_data w uid = Some st"
  shows "user_data (fst (handle_message rt env uid raw w)) = (user_data w)(uid := None)"
  using assms
  by (cases st)
    (auto simp add: handle_message_def Let_def set_state_def simp del: length_map
      split: option.splits)

lemma handle_message_none:
  assumes "user_data w uid = None"
  shows "handle_message rt env uid raw w =
    (if openai_client env
     then (w, ReplyText analysing_message # snd (analisar_com_ia rt env uid (strip raw) w) @
              send_or_raise ReplyText (fst (analisar_com_ia rt env uid (strip raw) w)))
     else (w, [ReplyText unrecognized_message]))"
  using assms by (simp add: handle_message_def Let_def)

lemma external_after_clearing:
  assumes "\<exists>rest. evs = SetState uid None # rest \<and> (\<forall>e\<in>set rest. \<forall>i s. e \<noteq> SetState i s)"
  shows "\<forall>before e after. evs = before @ e # after \<and> is_external e \<longrightarrow>
           SetState uid None \<in> set before"
proof (intro allI impI)
  fix before e after
  assume a: "evs = before @ e # after \<and> is_external e"
  from assms obtain rest where r: "evs = SetState uid None # rest"
    by blast
  show "SetState uid None \<in> set before"
  proof (cases before)
    case Nil
    with a r have "e = SetState uid None"
      by simp
    with a show ?thesis
      by simp
  next
    case (Cons b bs)
    with a r have "b = SetState uid None"
      by simp
    with Cons show ?thesis
      by simp
  qed
qed

text \<open>
  Claim C3. A text message received while the pending state of the user is not \<open>None\<close>:
  the first effect of the handler is the write of \<open>None\<close> to that state, so every
  network request and every access to the database comes after it, and no other write to
  a pending state follows; afterwards the state of the user is \<open>None\<close> and those of the
  other users are as before. The next text message of the user is therefore handled as under \<open>None\<close>:
  it is a question to the assistant if the assistant is configured (answered by the notice
  and then by what the assistant client returns, unless that client raises), and is
  answered by the message for an unrecognized command otherwise; it is not taken as a search term or a
  purchase again.
\<close>

theorem pending_state_single_use:
  assumes "user_data w uid = Some st"
    and "w1 = fst (handle_message rt env uid raw w)"
  shows "(\<exists>rest. snd (handle_message rt env uid raw w) = SetState uid None # rest \<and>
            (\<forall>e\<in>set rest. \<forall>i s. e \<noteq> SetState i s)) \<and>
         (\<forall>before e after.
            snd (handle_message rt env uid raw w) = before @ e # after \<and> is_external e \<longrightarrow>
            SetState uid None \<in> set before) \<and>
         user_data w1 = (user_data w)(uid := None) \<and>
         handle_message rt env2 uid raw2 w1 =
           (if openai_client env2
            then (w1, ReplyText analysing_message #
                      snd (analisar_com_ia rt env2 uid (strip raw2) w1) @
                      send_or_raise ReplyText (fst (analisar_com_ia rt env2 uid (strip raw2) w1)))
            else (w1, [ReplyText unrecognized_message]))"
proof -
  have n: "user_data w1 uid = None"
    using assms handle_message_state_after [of w uid st rt env raw] by simp
  have c: "\<exists>rest. snd (handle_message rt env uid raw w) = SetState uid None # rest \<and>
            (\<forall>e\<in>set rest. \<forall>i s. e \<noteq> SetState i s)"
    using assms(1) by (rule handle_message_clears_first)
  have x: "\<forall>before e after.
            snd (handle_message rt env uid raw w) = before @ e # after \<and> is_external e \<longrightarrow>
            SetState uid None \<in> set before"
    using c by (rule external_after_clearing)
  have a: "user_data w1 = (user_data w)(uid := None)"
    using assms handle_message_state_after [of w uid st rt env raw] by simp
  have s: "handle_message rt env2 uid raw2 w1 =
           (if openai_client env2
            then (w1, ReplyText analysing_message #
                      snd (analisar_com_ia rt env2 uid (strip raw2) w1) @
                      send_or_raise ReplyText (fst (analisar_com_ia rt env2 uid (strip raw2) w1)))
            else (w1, [ReplyText unrecognized_message]))"
    using n by (rule handle_message_none)
  show ?thesis
    by (intro conjI c x a s)
qed

text \<open>After "search", the term \<open>Xiaomi 14\<close> is searched for; the next text, \<open>Redmi\<close>, is
  not.\<close>

theorem pending_state_single_use_witness:
  "user_data demo_world_search 7 = Some waiting_shopee_term \<and>
   snd (handle_message int_runtime demo_env 7 (u ''Xiaomi 14'') demo_world_search) =
     [SetState 7 None, HttpGet (u ''https://shopee.com.br/search?keyword=Xiaomi%2014'') [],
      ReplyText (shopee_fallback (u ''Xiaomi 14'')
        (u ''https://shopee.com.br/search?keyword=Xiaomi%2014''))] \<and>
   user_data (fst (handle_message int_runtime demo_env 7 (u ''Xiaomi 14'') demo_world_search)) 7
     = None \<and>
   handle_message int_runtime demo_env 7 (u ''Redmi'')
     (fst (handle_message int_runtime demo_env 7 (u ''Xiaomi 14'') demo_world_search)) =
     (fst (handle_message int_runtime demo_env 7 (u ''Xiaomi 14'') demo_world_search),
      [ReplyText unrecognized_message])"
proof -
  have s: "user_data demo_world_search 7 = Some waiting_shopee_term"
    by (simp add: demo_world_search_def)
  have t: "strip (u ''Xiaomi 14'') = u ''Xiaomi 14''"
    by (simp add: u_def strip_def isspace_def)
  have l: "shopee_url (u ''Xiaomi 14'') = u ''https://shopee.com.br/search?keyword=Xiaomi%2014''"
    by (simp add: shopee_url_def replace_chr_def u_def space_def)
  have e: "snd (handle_message int_runtime demo_env 7 (u ''Xiaomi 14'') demo_world_search) =
     [SetState 7 None, HttpGet (u ''https://shopee.com.br/search?keyword=Xiaomi%2014'') [],
      ReplyText (shopee_fallback (u ''Xiaomi 14'')
        (u ''https://shopee.com.br/search?keyword=Xiaomi%2014''))]"
    using s by (simp add: handle_message_def Let_def t buscar_shopee_scraping_def l
        demo_env_def product_links_def)
  have o: "\<not> openai_client demo_env"
    by (simp add: demo_env_def)
  from pending_state_single_use [OF s refl, of int_runtime demo_env "u ''Xiaomi 14''" demo_env
      "u ''Redmi''"]
  show ?thesis
    using s e o by simp
qed

section \<open>Outbound messages per event\<close>

lemma outbound_append: "outbound (xs @ ys) = outbound xs @ outbound ys"
  by (simp add: outbound_def)

lemma outbound_Cons:
  "outbound (e # es) = (if is_outbound e then e # outbound es else outbound es)"
  by (simp add: outbound_def)

lemma outbound_Nil: "outbound [] = []"
  by (simp add: outbound_def)

lemma outbound_analisar: "outbound (snd (analisar_com_ia rt env uid prompt w)) = []"
  by (simp add: analisar_com_ia_def Let_def outbound_def split: option.splits sum.splits)

lemma outbound_shopee: "outbound (snd (buscar_shopee_scraping env termo)) = []"
  by (simp add: buscar_shopee_scraping_def Let_def outbound_def split: response.splits)

lemma outbound_deals: "outbound (snd (buscar_discount_api_real rt env)) = []"
  by (simp add: buscar_discount_api_real_def Let_def outbound_def
      split: response.splits sum.splits)

lemma outbound_send_or_raise:
  "outbound (send_or_raise ReplyText r) = (case r of Inl e \<Rightarrow> [] | Inr m \<Rightarrow> [ReplyText m])"
  "outbound (send_or_raise EditText r) = (case r of Inl e \<Rightarrow> [] | Inr m \<Rightarrow> [EditText m])"
  by (simp_all add: send_or_raise_def outbound_def split: sum.splits)

lemmas outbound_simps = outbound_append outbound_Cons outbound_Nil outbound_analisar
  outbound_shopee outbound_deals outbound_send_or_raise

lemma returns_append: "returns (xs @ ys) \<longleftrightarrow> returns xs \<and> returns ys"
  by (auto simp add: returns_def)

lemma returns_Cons: "returns (e # es) \<longleftrightarrow> (\<forall>x. e \<noteq> Raised x) \<and> returns es"
  by (auto simp add: returns_def)

lemma returns_Nil: "returns []"
  by (simp add: returns_def)

lemma returns_analisar: "returns (snd (analisar_com_ia rt env uid prompt w))"
  by (simp add: analisar_com_ia_def Let_def returns_def split: option.splits sum.splits)

lemma returns_shopee: "returns (snd (buscar_shopee_scraping env termo))"
  by (simp add: buscar_shopee_scraping_def Let_def returns_def split: response.splits)

lemma returns_deals: "returns (snd (buscar_discount_api_real rt env))"
  by (simp add: buscar_discount_api_real_def Let_def returns_def
      split: response.splits sum.splits)

lemma returns_send_or_raise:
  "returns (send_or_raise ReplyText r) \<longleftrightarrow> (\<exists>m. r = Inr m)"
  "returns (send_or_raise EditText r) \<longleftrightarrow> (\<exists>m. r = Inr m)"
  by (auto simp add: send_or_raise_def returns_def split: sum.splits)

lemmas returns_simps = returns_append returns_Cons returns_Nil returns_analisar
  returns_shopee returns_deals returns_send_or_raise

lemma handle_message_outbound:
  assumes "returns (snd (handle_message rt env uid raw w))"
  shows "if ai_question env uid w
         then \<exists>answer. fst (analisar_com_ia rt env uid (strip raw) w) = Inr answer \<and>
                outbound (snd (handle_message rt env uid raw w)) =
                  [ReplyText analysing_message, ReplyText answer]
         else length (outbound (snd (handle_message rt env uid raw w))) = 1"
proof (cases "user_data w uid")
  case None
  with assms show ?thesis
    by (auto simp add: handle_message_def Let_def ai_question_def outbound_simps returns_simps)
next
  case (Some st)
  with assms show ?thesis
    by (cases st)
      (auto simp add: handle_message_def Let_def ai_question_def outbound_simps returns_simps
        analisar_set_state simp del: length_map split: option.splits)
qed

lemma handle_message_returns:
  assumes "no_null uid w"
  shows "returns (snd (handle_message rt env uid raw w))"
proof (cases "user_data w uid")
  case None
  with assms show ?thesis
    using analisar_returns [of uid w rt env "strip raw"]
    by (auto simp add: handle_message_def Let_def returns_simps)
next
  case (Some st)
  with assms show ?thesis
    using analisar_returns [of uid w rt env "strip raw"]
    by (cases st)
      (auto simp add: handle_message_def Let_def returns_simps analisar_set_state
        simp del: length_map split: option.splits)
qed

lemma keyboard_data:
  "snd ` set keyboard = {u ''deals'', u ''shopee_search'', u ''add_purchase'', u ''my_expenses'',
     u ''ask_ai'', u ''help''}"
  by (simp add: keyboard_def)

lemma handle_callback_outbound:
  assumes "data \<in> snd ` set keyboard"
    and "returns (snd (handle_callback rt env uid data w))"
  shows "length (outbound (snd (handle_callback rt env uid data w))) = 1"
proof -
  from assms(1) consider "data = u ''deals''" | "data = u ''shopee_search''"
    | "data = u ''add_purchase''" | "data = u ''my_expenses''" | "data = u ''ask_ai''"
    | "data = u ''help''"
    unfolding keyboard_data by blast
  then show ?thesis
  proof cases
    case 1
    with assms(2) show ?thesis
      by (auto simp add: handle_callback_def Let_def outbound_simps returns_simps)
  next
    case 2
    then show ?thesis by (simp add: handle_callback_def outbound_simps u_def)
  next
    case 3
    then show ?thesis by (simp add: handle_callback_def outbound_simps u_def)
  next
    case 4
    with assms(2) show ?thesis
      by (auto simp add: handle_callback_def Let_def outbound_simps returns_simps u_def)
  next
    case 5
    then show ?thesis by (simp add: handle_callback_def outbound_simps u_def)
  next
    case 6
    then show ?thesis
      by (simp add: handle_callback_def Let_def help_command_def outbound_simps u_def)
  qed
qed

lemma handle_callback_returns:
  assumes "no_null uid w"
    and "data = u ''deals'' \<longrightarrow> (\<exists>m. fst (buscar_discount_api_real rt env) = Inr m)"
  shows "returns (snd (handle_callback rt env uid data w))"
proof (cases "data = u ''my_expenses''")
  case True
  have "\<exists>m. and_then (py_sum rt (map value_col (my_expenses_query uid w))) (\<lambda>total_spent.
           append_all (expenses_header (format_2f rt total_spent)
               (str_nat (length (my_expenses_query uid w))))
             (map (expense_line rt) (take 5 (my_expenses_query uid w)))) = Inr m"
    using my_expenses_message [OF assms(1) refl, of rt] by blast
  with True show ?thesis
    by (auto simp add: handle_callback_def Let_def returns_simps u_def)
next
  case False
  with assms(2) show ?thesis
    by (auto simp add: handle_callback_def Let_def returns_simps help_command_def)
qed

text \<open>A callback whose data is none of the six of the keyboard is acknowledged and not
  answered; a command other than \<open>start\<close> and \<open>help\<close> reaches no handler.\<close>

lemma unknown_callback_silent:
  "data \<notin> snd ` set keyboard \<Longrightarrow> handle_callback rt env uid data w = (w, [AnswerQuery])"
  unfolding keyboard_data by (simp add: handle_callback_def)

lemma unknown_command_silent:
  "command_of raw = Some c \<Longrightarrow> c \<noteq> u ''start'' \<Longrightarrow> c \<noteq> u ''help'' \<Longrightarrow>
   dispatch rt env uid (Message raw) w = (w, [])"
  by (simp add: dispatch_def)

text \<open>
  Claim C4, as the code has it. For an update that a handler takes (a message that is no
  command, the command \<open>start\<close> or \<open>help\<close>, a click on one of the six buttons of the
  keyboard) and whose handler returns, the handler sends exactly one message, except on
  the paths that question the assistant: a text message received under the pending state
  \<open>waiting_ai_prompt\<close>, or under \<open>None\<close> with the assistant configured, is answered by
  exactly two messages, first the notice that the question is being analysed and then
  what the assistant client returned, which is the completion, the error text or the text
  that the feature is disabled. The handler returns whenever no row of the user holds
  \<open>NULL\<close> as its value and, for a click on "deals", the deals client returns.
\<close>

theorem one_or_two_outbound_messages:
  "(handled ev \<and> returns (snd (dispatch rt env uid ev w)) \<longrightarrow>
      (case ev of
         Message raw \<Rightarrow>
           if command_of raw = None \<and> ai_question env uid w
           then \<exists>answer.
                  outbound (snd (dispatch rt env uid ev w)) =
                    [ReplyText analysing_message, ReplyText answer] \<and>
                  fst (analisar_com_ia rt env uid (strip raw) w) = Inr answer \<and>
                  (answer = ai_disabled_message \<or> answer = ai_error_message \<or>
                   (\<exists>question. chat_completion env system_prompt question = Some answer))
           else length (outbound (snd (dispatch rt env uid ev w))) = 1
       | Callback data \<Rightarrow> length (outbound (snd (dispatch rt env uid ev w))) = 1)) \<and>
   (handled ev \<and> no_null uid w \<and>
    (ev = Callback (u ''deals'') \<longrightarrow> (\<exists>m. fst (buscar_discount_api_real rt env) = Inr m)) \<longrightarrow>
      returns (snd (dispatch rt env uid ev w)))"
proof (intro conjI impI)
  assume a: "handled ev \<and> returns (snd (dispatch rt env uid ev w))"
  show "case ev of
         Message raw \<Rightarrow>
           if command_of raw = None \<and> ai_question env uid w
           then \<exists>answer.
                  outbound (snd (dispatch rt env uid ev w)) =
                    [ReplyText analysing_message, ReplyText answer] \<and>
                  fst (analisar_com_ia rt env uid (strip raw) w) = Inr answer \<and>
                  (answer = ai_disabled_message \<or> answer = ai_error_message \<or>
                   (\<exists>question. chat_completion env system_prompt question = Some answer))
           else length (outbound (snd (dispatch rt env uid ev w))) = 1
       | Callback data \<Rightarrow> length (outbound (snd (dispatch rt env uid ev w))) = 1"
  proof (cases ev)
    case (Message raw)
    show ?thesis
    proof (cases "command_of raw")
      case None
      with a Message have r: "returns (snd (handle_message rt env uid raw w))"
        by (simp add: dispatch_def)
      show ?thesis
        using handle_message_outbound [OF r] analisar_answer [of rt env uid "strip raw" w]
          Message None
        by (auto simp add: dispatch_def)
    next
      case (Some c)
      with a Message show ?thesis
        by (auto simp add: handled_def dispatch_def start_def help_command_def outbound_simps)
    qed
  next
    case (Callback data)
    with a show ?thesis
      by (simp add: handled_def dispatch_def handle_callback_outbound)
  qed
next
  assume b: "handled ev \<and> no_null uid w \<and>
    (ev = Callback (u ''deals'') \<longrightarrow> (\<exists>m. fst (buscar_discount_api_real rt env) = Inr m))"
  show "returns (snd (dispatch rt env uid ev w))"
  proof (cases ev)
    case (Message raw)
    with b show ?thesis
      by (auto simp add: handled_def dispatch_def handle_message_returns start_def
          help_command_def returns_simps split: option.splits)
  next
    case (Callback data)
    with b show ?thesis
      by (simp add: dispatch_def handle_callback_returns)
  qed
qed

lemma no_command_oi: "command_of (u ''oi'') = None"
  by (simp add: command_of_def u_def slash_def)

lemma analisar_oi:
  "analisar_com_ia int_runtime demo_env_ai 7 (strip (u ''oi'')) empty_world =
     (Inr (u ''ok''),
      [DbQuery 7,
       ChatCompletion system_prompt
         (user_prompt (u ''O usu'' @ [0xE1] @ u ''rio ainda n'' @ [0xE3] @
            u ''o registrou nenhuma compra.'') (strip (u ''oi'')))])"
  by (simp add: analisar_com_ia_def Let_def demo_env_ai_def demo_env_def empty_world_def
      context_data_def)

lemma deals_none_found:
  "fst (buscar_discount_api_real int_runtime demo_env) = Inr no_deals_message"
  by (simp add: buscar_discount_api_real_def Let_def demo_env_def dict_get_def truthy_def)

text \<open>A click on "deals" where the API has none, and the text \<open>oi\<close> of a user without
  pending state where the assistant is configured.\<close>

theorem one_or_two_outbound_messages_witness:
  "handled (Callback (u ''deals'')) \<and> no_null 7 empty_world \<and>
   fst (buscar_discount_api_real int_runtime demo_env) = Inr no_deals_message \<and>
   returns (snd (dispatch int_runtime demo_env 7 (Callback (u ''deals'')) empty_world)) \<and>
   length (outbound (snd (dispatch int_runtime demo_env 7 (Callback (u ''deals'')) empty_world)))
     = 1 \<and>
   handled (Message (u ''oi'')) \<and> command_of (u ''oi'') = None \<and>
   ai_question demo_env_ai 7 empty_world \<and>
   returns (snd (dispatch int_runtime demo_env_ai 7 (Message (u ''oi'')) empty_world)) \<and>
   outbound (snd (dispatch int_runtime demo_env_ai 7 (Message (u ''oi'')) empty_world)) =
     [ReplyText analysing_message, ReplyText (u ''ok'')]"
proof -
  have h1: "handled (Callback (u ''deals''))"
    by (simp add: handled_def keyboard_data)
  have h2: "handled (Message (u ''oi''))"
    by (simp add: handled_def no_command_oi)
  have n: "no_null 7 empty_world"
    by (simp add: no_null_def empty_world_def)
  have q: "ai_question demo_env_ai 7 empty_world"
    by (simp add: ai_question_def demo_env_ai_def empty_world_def)
  note t1 = one_or_two_outbound_messages [of "Callback (u ''deals'')" int_runtime demo_env 7
      empty_world]
  note t2 = one_or_two_outbound_messages [of "Message (u ''oi'')" int_runtime demo_env_ai 7
      empty_world]
  have r1: "returns (snd (dispatch int_runtime demo_env 7 (Callback (u ''deals'')) empty_world))"
    using t1 h1 n deals_none_found by blast
  have l1: "length (outbound (snd (dispatch int_runtime demo_env 7 (Callback (u ''deals''))
      empty_world))) = 1"
    using t1 h1 r1 by simp
  have r2: "returns (snd (dispatch int_runtime demo_env_ai 7 (Message (u ''oi'')) empty_world))"
    using t2 h2 n by simp
  have "\<exists>answer.
      outbound (snd (dispatch int_runtime demo_env_ai 7 (Message (u ''oi'')) empty_world)) =
        [ReplyText analysing_message, ReplyText answer] \<and>
      fst (analisar_com_ia int_runtime demo_env_ai 7 (strip (u ''oi'')) empty_world) = Inr answer"
    using t2 h2 r2 q no_command_oi by auto
  then have l2: "outbound (snd (dispatch int_runtime demo_env_ai 7 (Message (u ''oi''))
      empty_world)) = [ReplyText analysing_message, ReplyText (u ''ok'')]"
    by (auto simp add: analisar_oi)
  show ?thesis
    by (intro conjI h1 h2 n q r1 l1 r2 l2 deals_none_found no_command_oi)
qed

text \<open>
  Claim C4 as stated allows no path with more than one message. With the assistant
  configured, the text \<open>oi\<close> of a user without pending state is answered by two: the notice
  and the completion.
\<close>

theorem ai_question_two_messages:
  "outbound (snd (dispatch int_runtime demo_env_ai 7 (Message (u ''oi'')) empty_world)) =
     [ReplyText analysing_message, ReplyText (u ''ok'')] \<and>
   length (outbound (snd (dispatch int_runtime demo_env_ai 7 (Message (u ''oi'')) empty_world)))
     = 2"
proof -
  have o: "openai_client demo_env_ai" "user_data empty_world 7 = None"
    by (simp_all add: demo_env_ai_def empty_world_def)
  show ?thesis
    using o
    by (simp add: dispatch_def no_command_oi handle_message_def Let_def analisar_oi
        outbound_simps send_or_raise_def)
qed

section \<open>Selecting "deals"\<close>





text \<open>A discount that is \<open>null\<close> or a text has no format \<open>.1f\<close>: the block raises.\<close>

lemma deal_block_null_discount:
  "deal_block rt (JObj [(u ''deal'', JObj [(u ''discount_percentage'', JNull)])]) = Inl TypeError"
  by (simp add: deal_block_def dict_get_def and_then_def format_json_1f_def u_def)

lemma deal_block_text_discount:
  "deal_block rt (JObj [(u ''deal'', JObj [(u ''discount_percentage'', JStr (u ''10''))])]) =
     Inl ValueError"
  by (simp add: deal_block_def dict_get_def and_then_def format_json_1f_def u_def)





section \<open>Selecting "my expenses"\<close>

lemma mset_order_by_date_desc: "mset (order_by_date_desc rows) = mset rows"
  by (simp add: order_by_date_desc_def)

lemma sorted_order_by_date_desc:
  "sorted_wrt (\<lambda>p q. date q \<le> date p) (order_by_date_desc rows)"
proof -
  have "sorted (map (\<lambda>p. - int (date p)) (sort_key (\<lambda>p. - int (date p)) rows))"
    by (rule sorted_sort_key)
  then have "sorted_wrt (\<lambda>p q. - int (date p) \<le> - int (date q))
      (sort_key (\<lambda>p. - int (date p)) rows)"
    by (simp add: sorted_map)
  then show ?thesis
    by (simp add: order_by_date_desc_def)
qed

text \<open>Rows of one date keep the order of their insertion.\<close>

lemma order_by_date_desc_stable:
  "filter (\<lambda>p. date p = d) (order_by_date_desc rows) = filter (\<lambda>p. date p = d) rows"
proof -
  have "filter (\<lambda>p. - int (date p) = - int d) (sort_key (\<lambda>p. - int (date p)) rows) =
      filter (\<lambda>p. - int (date p) = - int d) rows"
    by (rule sort_key_stable)
  then show ?thesis
    by (simp add: order_by_date_desc_def)
qed

lemma sorted_wrt_take_drop:
  assumes "sorted_wrt P xs"
  shows "\<forall>x\<in>set (take n xs). \<forall>y\<in>set (drop n xs). P x y"
proof -
  have "sorted_wrt P (take n xs @ drop n xs)"
    using assms by simp
  then show ?thesis
    unfolding sorted_wrt_append by blast
qed

lemma no_purchases_no_digit: "\<forall>c\<in>set no_purchases_message. c < 48 \<or> 57 < c"
  by (simp add: no_purchases_message_def u_def)

text \<open>
  The part of claim C6 that the code keeps. On the selection of "my expenses", with \<open>ps\<close>
  the rows the query returns: \<open>ps\<close> holds exactly the purchases of the user, latest date
  first, those of one date in the order of their insertion. If there is none, the answer
  is the "no purchases yet" message, a text without any digit. Otherwise, when no row
  of the user holds \<open>NULL\<close> as its value, the answer starts with the total, the sum of the
  values of all of \<open>ps\<close> in the format \<open>.2f\<close>, and the number of all of \<open>ps\<close>, and goes on
  with one line for each of the first five of \<open>ps\<close>, in that order, with product, value,
  category and date; no purchase left out is later than a listed one.
\<close>

lemma my_expenses_summary:
  assumes "ps = my_expenses_query uid w" and "no_null uid w"
  shows "handle_callback rt env uid (u ''my_expenses'') w =
           (w, [AnswerQuery, DbQuery uid,
                EditText
                  (if ps = [] then
                     [0x1F4CA] @ u '' Voc'' @ [0xEA] @ u '' ainda n'' @ [0xE3] @
                     u ''o registrou nenhuma compra no banco de dados.''
                   else
                     [0x1F4CA] @ u '' **Resumo dos Seus Gastos (Persistente)** '' @
                     [0x1F4CA, 10, 10] @
                     u ''Total Gasto: **R$ '' @
                     format_2f rt
                       (foldl (float_add rt) (py_int rt 0) (map (\<lambda>p. the (value_col p)) ps)) @
                     u ''**'' @ [10] @
                     u ''N'' @ [0xFA] @ u ''mero de Compras: **'' @ str_nat (length ps) @
                     u ''**'' @ [10, 10] @
                     u ''**'' @ [0xDA] @ u ''ltimas Compras Registradas:**'' @ [10] @
                     concat (map (\<lambda>p. u '' - '' @ product p @ u '' (R$ '' @
                                       format_2f rt (the (value_col p)) @ u '') - '' @
                                       category p @ u '' ('' @ strftime_dm rt (date p) @
                                       u '')'' @ [10])
                               (take 5 ps)))]) \<and>
         mset ps = mset (filter (\<lambda>p. user_id p = uid) (purchases w)) \<and>
         sorted_wrt (\<lambda>p q. date q \<le> date p) ps \<and>
         (\<forall>d. filter (\<lambda>p. date p = d) ps =
               filter (\<lambda>p. date p = d) (filter (\<lambda>p. user_id p = uid) (purchases w))) \<and>
         (\<forall>p\<in>set (take 5 ps). \<forall>q\<in>set (drop 5 ps). date q \<le> date p)"
proof -
  have m: "and_then (py_sum rt (map value_col ps)) (\<lambda>total_spent.
           append_all (expenses_header (format_2f rt total_spent) (str_nat (length ps)))
             (map (expense_line rt) (take 5 ps))) =
         Inr (expenses_header
                (format_2f rt (foldl (float_add rt) (py_int rt 0) (map (\<lambda>p. the (value_col p)) ps)))
                (str_nat (length ps)) @
              concat (map (\<lambda>p. u '' - '' @ product p @ u '' (R$ '' @
                                format_2f rt (the (value_col p)) @ u '') - '' @ category p @
                                u '' ('' @ strftime_dm rt (date p) @ u '')'' @ [10])
                        (take 5 ps)))"
    using assms(2,1) by (rule my_expenses_message)
  have 1: "handle_callback rt env uid (u ''my_expenses'') w =
           (w, [AnswerQuery, DbQuery uid,
                EditText
                  (if ps = [] then
                     [0x1F4CA] @ u '' Voc'' @ [0xEA] @ u '' ainda n'' @ [0xE3] @
                     u ''o registrou nenhuma compra no banco de dados.''
                   else
                     [0x1F4CA] @ u '' **Resumo dos Seus Gastos (Persistente)** '' @
                     [0x1F4CA, 10, 10] @
                     u ''Total Gasto: **R$ '' @
                     format_2f rt
                       (foldl (float_add rt) (py_int rt 0) (map (\<lambda>p. the (value_col p)) ps)) @
                     u ''**'' @ [10] @
                     u ''N'' @ [0xFA] @ u ''mero de Compras: **'' @ str_nat (length ps) @
                     u ''**'' @ [10, 10] @
                     u ''**'' @ [0xDA] @ u ''ltimas Compras Registradas:**'' @ [10] @
                     concat (map (\<lambda>p. u '' - '' @ product p @ u '' (R$ '' @
                                       format_2f rt (the (value_col p)) @ u '') - '' @
                                       category p @ u '' ('' @ strftime_dm rt (date p) @
                                       u '')'' @ [10])
                               (take 5 ps)))])"
  proof (cases "ps = []")
    case True
    with assms(1) show ?thesis
      by (simp add: handle_callback_def Let_def u_def no_purchases_message_def)
  next
    case False
    have k: "u ''my_expenses'' \<noteq> u ''deals''" "u ''my_expenses'' \<noteq> u ''shopee_search''"
      "u ''my_expenses'' \<noteq> u ''add_purchase''" "u ''my_expenses'' \<noteq> u ''ask_ai''"
      by (simp_all add: u_def)
    from False assms(1) m show ?thesis
      by (simp add: handle_callback_def Let_def k send_or_raise_def expenses_header_def)
  qed
  have 2: "mset ps = mset (filter (\<lambda>p. user_id p = uid) (purchases w))"
    using assms(1) by (simp add: my_expenses_query_def mset_order_by_date_desc)
  have 3: "sorted_wrt (\<lambda>p q. date q \<le> date p) ps"
    using assms(1) by (simp add: my_expenses_query_def sorted_order_by_date_desc)
  have 4: "\<forall>d. filter (\<lambda>p. date p = d) ps =
               filter (\<lambda>p. date p = d) (filter (\<lambda>p. user_id p = uid) (purchases w))"
    using assms(1) by (simp only: my_expenses_query_def order_by_date_desc_stable) simp
  have 5: "\<forall>p\<in>set (take 5 ps). \<forall>q\<in>set (drop 5 ps). date q \<le> date p"
    using sorted_wrt_take_drop [OF 3] .
  show ?thesis
    by (intro conjI 1 2 3 4 5)
qed

lemma demo_query_7:
  "my_expenses_query 7 demo_world_expenses =
     [book 7 7 60 7, book 6 7 50 6, book 5 7 40 5, book 4 7 30 4, book 2 7 20 2, book 1 7 10 1]"
  by (simp add: my_expenses_query_def order_by_date_desc_def demo_world_expenses_def book_def
      sort_key_def)

lemma demo_total:
  "format_2f int_runtime (foldl (float_add int_runtime) (py_int int_runtime 0)
     (map (\<lambda>p. the (value_col p))
       [book 7 7 60 7, book 6 7 50 6, book 5 7 40 5, book 4 7 30 4, book 2 7 20 2,
        book 1 7 10 1]))
   = u ''210.00''"
  by (simp add: book_def int_runtime_def int_format_def str_nat.simps u_def period_def)

lemma str_nat_6: "str_nat 6 = u ''6''"
  by (simp add: str_nat.simps u_def)

lemma demo_no_null: "no_null 7 demo_world_expenses"
  by (simp add: no_null_def demo_world_expenses_def book_def)

text \<open>User 7 has six purchases, of which the five latest are listed.\<close>

lemma my_expenses_summary_example:
  "handle_callback int_runtime demo_env 7 (u ''my_expenses'') demo_world_expenses =
     (demo_world_expenses,
      [AnswerQuery, DbQuery 7,
       EditText
         ([0x1F4CA] @ u '' **Resumo dos Seus Gastos (Persistente)** '' @ [0x1F4CA, 10, 10] @
          u ''Total Gasto: **R$ 210.00**'' @ [10] @
          u ''N'' @ [0xFA] @ u ''mero de Compras: **6**'' @ [10, 10] @
          u ''**'' @ [0xDA] @ u ''ltimas Compras Registradas:**'' @ [10] @
          u '' - Book (R$ 60.00) - Fun (07/01)'' @ [10] @
          u '' - Book (R$ 50.00) - Fun (06/01)'' @ [10] @
          u '' - Book (R$ 40.00) - Fun (05/01)'' @ [10] @
          u '' - Book (R$ 30.00) - Fun (04/01)'' @ [10] @
          u '' - Book (R$ 20.00) - Fun (02/01)'' @ [10])])"
proof -
  have l: "length [book 7 7 60 7, book 6 7 50 6, book 5 7 40 5, book 4 7 30 4, book 2 7 20 2,
             book 1 7 10 1] = 6"
    by simp
  have t: "take 5 [book 7 7 60 7, book 6 7 50 6, book 5 7 40 5, book 4 7 30 4, book 2 7 20 2,
             book 1 7 10 1] =
           [book 7 7 60 7, book 6 7 50 6, book 5 7 40 5, book 4 7 30 4, book 2 7 20 2]"
    by simp
  have e: "[0x1F4CA] @ u '' **Resumo dos Seus Gastos (Persistente)** '' @ [0x1F4CA, 10, 10] @
          u ''Total Gasto: **R$ '' @ u ''210.00'' @ u ''**'' @ [10] @
          u ''N'' @ [0xFA] @ u ''mero de Compras: **'' @ u ''6'' @ u ''**'' @ [10, 10] @
          u ''**'' @ [0xDA] @ u ''ltimas Compras Registradas:**'' @ [10] @
          concat (map (\<lambda>p. u '' - '' @ product p @ u '' (R$ '' @
                            format_2f int_runtime (the (value_col p)) @ u '') - '' @
                            category p @ u '' ('' @ strftime_dm int_runtime (date p) @
                            u '')'' @ [10])
            [book 7 7 60 7, book 6 7 50 6, book 5 7 40 5, book 4 7 30 4, book 2 7 20 2]) =
         [0x1F4CA] @ u '' **Resumo dos Seus Gastos (Persistente)** '' @ [0x1F4CA, 10, 10] @
          u ''Total Gasto: **R$ 210.00**'' @ [10] @
          u ''N'' @ [0xFA] @ u ''mero de Compras: **6**'' @ [10, 10] @
          u ''**'' @ [0xDA] @ u ''ltimas Compras Registradas:**'' @ [10] @
          u '' - Book (R$ 60.00) - Fun (07/01)'' @ [10] @
          u '' - Book (R$ 50.00) - Fun (06/01)'' @ [10] @
          u '' - Book (R$ 40.00) - Fun (05/01)'' @ [10] @
          u '' - Book (R$ 30.00) - Fun (04/01)'' @ [10] @
          u '' - Book (R$ 20.00) - Fun (02/01)'' @ [10]"
    by (simp add: book_def int_runtime_def int_format_def pad2_def str_nat.simps u_def
        period_def)
  from my_expenses_summary [OF demo_query_7 [symmetric] demo_no_null, of int_runtime demo_env,
      THEN conjunct1]
  show ?thesis
    by (simp only: demo_total l t str_nat_6 list.distinct if_False e)
qed

lemma nan_query: "my_expenses_query 7 nan_world_after = [nan_row]"
  by (simp add: my_expenses_query_def order_by_date_desc_def nan_world_after_def nan_row_def)

text \<open>
  Claim C6 after the entry \<open>x - nan - y\<close>. The entry leaves user 7 with one purchase, whose
  value the table holds as \<open>NULL\<close>. On the selection of "my expenses" the query returns
  that row, so the user has purchases; but the sum over the values raises \<open>TypeError\<close>,
  the exception leaves the handler and no message is sent: neither a total nor a count
  nor a list.
\<close>

theorem my_expenses_raises_on_null:
  "handle_message nan_runtime nan_env 7 (u ''x - nan - y'') nan_world =
     (nan_world_after,
      [SetState 7 None, DbAdd nan_row,
       ReplyText ([0x2705] @ u '' Compra registrada com sucesso no banco de dados!'' @ [10] @
         u ''Produto: x'' @ [10] @ u ''Valor: R$ nan'' @ [10] @ u ''Categoria: y'')]) \<and>
   my_expenses_query 7 nan_world_after = [nan_row] \<and>
   handle_callback nan_runtime nan_env 7 (u ''my_expenses'') nan_world_after =
     (nan_world_after, [AnswerQuery, DbQuery 7, Raised TypeError]) \<and>
   outbound (snd (handle_callback nan_runtime nan_env 7 (u ''my_expenses'') nan_world_after)) = []"
proof -
  have s: "py_sum nan_runtime [value_col nan_row] = Inl TypeError"
    by (simp add: py_sum_def nan_row_def)
  have h: "handle_callback nan_runtime nan_env 7 (u ''my_expenses'') nan_world_after =
     (nan_world_after, [AnswerQuery, DbQuery 7, Raised TypeError])"
    by (simp add: handle_callback_def Let_def nan_query s and_then_def send_or_raise_def u_def)
  have e: "handle_message nan_runtime nan_env 7 (u ''x - nan - y'') nan_world =
     (nan_world_after,
      [SetState 7 None, DbAdd nan_row,
       ReplyText ([0x2705] @ u '' Compra registrada com sucesso no banco de dados!'' @ [10] @
         u ''Produto: x'' @ [10] @ u ''Valor: R$ nan'' @ [10] @ u ''Categoria: y'')])"
    using nan_entry by (simp add: nan_world_after_def)
  show ?thesis
    using e h nan_query by (simp add: outbound_def)
qed

section \<open>The assistant without a credential\<close>

text \<open>
  Claim C7. Without the credential of the completion API, so that no client object
  exists: the selection of "ask AI" is answered by the message that the feature is
  disabled and changes nothing, so a pending state that is \<open>None\<close> stays \<open>None\<close> and no
  state becomes \<open>waiting_ai_prompt\<close>; and the assistant client returns that message at
  once, with no effect at all: no query of the purchases and no request to the API.
\<close>

theorem ai_unavailable:
  assumes "\<not> openai_client env"
  shows "handle_callback rt env uid (u ''ask_ai'') w =
           (w, [AnswerQuery, EditText ai_disabled_message]) \<and>
         (user_data w uid = None \<longrightarrow>
            user_data (fst (handle_callback rt env uid (u ''ask_ai'') w)) uid = None) \<and>
         (user_data w uid \<noteq> Some waiting_ai_prompt \<longrightarrow>
            user_data (fst (handle_callback rt env uid (u ''ask_ai'') w)) uid
              \<noteq> Some waiting_ai_prompt) \<and>
         analisar_com_ia rt env uid prompt w = (Inr ai_disabled_message, [])"
  using assms by (simp add: handle_callback_def analisar_com_ia_def u_def)

text \<open>A user without pending state selects "ask AI" where no key is configured.\<close>

theorem ai_unavailable_witness:
  "\<not> openai_client demo_env \<and>
   user_data empty_world 7 = None \<and>
   handle_callback int_runtime demo_env 7 (u ''ask_ai'') empty_world =
     (empty_world, [AnswerQuery, EditText ai_disabled_message]) \<and>
   user_data (fst (handle_callback int_runtime demo_env 7 (u ''ask_ai'') empty_world)) 7 = None \<and>
   analisar_com_ia int_runtime demo_env 7 (u ''Quanto gastei?'') empty_world =
     (Inr ai_disabled_message, [])"
proof -
  have o: "\<not> openai_client demo_env"
    by (simp add: demo_env_def)
  have n: "user_data empty_world 7 = None"
    by (simp add: empty_world_def)
  from ai_unavailable [OF o, of int_runtime 7 empty_world "u ''Quanto gastei?''"]
  show ?thesis
    using o n by simp
qed

section \<open>Search client\<close>

text \<open>\<open>contains\<close> is the substring test.\<close>

lemma startswith_iff: "startswith s p \<longleftrightarrow> (\<exists>r. s = p @ r)"
  by (induction s p rule: startswith.induct) auto

lemma contains_iff: "contains sub s \<longleftrightarrow> (\<exists>a b. s = a @ sub @ b)"
proof (induction s)
  case Nil
  then show ?case by auto
next
  case (Cons c cs)
  show ?case
  proof
    assume "contains sub (c # cs)"
    then consider "startswith (c # cs) sub" | "contains sub cs"
      by auto
    then show "\<exists>a b. c # cs = a @ sub @ b"
    proof cases
      case 1
      then obtain r where "c # cs = sub @ r"
        using startswith_iff by blast
      then have "c # cs = [] @ sub @ r"
        by simp
      then show ?thesis by blast
    next
      case 2
      then obtain a b where "cs = a @ sub @ b"
        using Cons.IH by blast
      then have "c # cs = (c # a) @ sub @ b"
        by simp
      then show ?thesis by blast
    qed
  next
    assume "\<exists>a b. c # cs = a @ sub @ b"
    then obtain a b where ab: "c # cs = a @ sub @ b"
      by blast
    show "contains sub (c # cs)"
    proof (cases a)
      case Nil
      with ab have "startswith (c # cs) sub"
        using startswith_iff by auto
      then show ?thesis by simp
    next
      case (Cons x xs)
      with ab have "cs = xs @ sub @ b"
        by simp
      then have "contains sub cs"
        using Cons.IH by blast
      then show ?thesis by simp
    qed
  qed
qed

lemma length_product_links: "length (product_links hrefs) \<le> 3"
  by (simp add: product_links_def)

lemma set_product_links:
  "l \<in> set (product_links hrefs) \<Longrightarrow> l \<in> set hrefs \<and> (\<exists>a b. l = a @ u ''/product/'' @ b)"
  unfolding product_links_def using contains_iff by (auto dest!: in_set_takeD)

lemma product_links_Nil_iff:
  "product_links hrefs = [] \<longleftrightarrow> (\<forall>l\<in>set hrefs. \<not> contains (u ''/product/'') l)"
  by (auto simp add: product_links_def filter_empty_conv)

lemma hd_shopee_fallback: "hd (shopee_fallback termo link) = 0x274C"
  by (simp add: shopee_fallback_def)

lemma hd_shopee_result:
  "hd (shopee_header termo @ concat (map shopee_line ls)) = 0x1F6CD"
  by (simp add: shopee_header_def)

lemma shopee_fallback_not_result:
  "shopee_fallback termo link \<noteq> shopee_header t @ concat (map shopee_line ls)"
proof
  assume "shopee_fallback termo link = shopee_header t @ concat (map shopee_line ls)"
  then have "hd (shopee_fallback termo link) = hd (shopee_header t @ concat (map shopee_line ls))"
    by simp
  then show False
    by (simp only: hd_shopee_fallback hd_shopee_result)
qed

lemma shopee_fallback_links:
  "\<exists>notice. shopee_fallback termo link =
     notice @
     [0x1F517] @ u '' [Produto 1 - '' @ termo @ u '']('' @ link @ u '')'' @ [10] @
     [0x1F517] @ u '' [Produto 2 - '' @ termo @ u '']('' @ link @ u '')'' @ [10]"
proof -
  have "shopee_fallback termo link =
     ([0x274C] @ u '' O scraping da Shopee falhou ou n'' @ [0xE3] @
      u ''o encontrou resultados para '' @ [39] @ termo @ [39] @ u ''.'' @ [10] @
      u ''Isso '' @ [0xE9] @ u '' comum, pois a Shopee usa carregamento din'' @ [0xE2] @
      u ''mico (JavaScript).'' @ [10, 10] @
      u ''**Links Simulados (para demonstrar a funcionalidade):**'' @ [10]) @
     [0x1F517] @ u '' [Produto 1 - '' @ termo @ u '']('' @ link @ u '')'' @ [10] @
     [0x1F517] @ u '' [Produto 2 - '' @ termo @ u '']('' @ link @ u '')'' @ [10]"
    by (simp add: shopee_fallback_def)
  then show ?thesis by blast
qed

text \<open>
  Claim C8. For every search term, when the request succeeds: the links the client
  extracts are at most three, each the \<open>href\<close> of an anchor of the page that contains
  \<open>/product/\<close>, and there is none exactly when no anchor has such a \<open>href\<close>. With no link
  the result is the fallback notice, which ends with two placeholder links that both point
  to the search URL built from the term; with links it is the list of results. The
  notice is never equal to a list of results, whatever the term and the links: the two
  start with different characters.
\<close>

theorem search_links_capped:
  assumes "http_shopee env (shopee_url termo) = Ok hrefs"
    and "links = product_links hrefs"
  shows "length links \<le> 3 \<and>
         (\<forall>l\<in>set links. l \<in> set hrefs \<and> (\<exists>a b. l = a @ u ''/product/'' @ b)) \<and>
         (links = [] \<longleftrightarrow> (\<forall>l\<in>set hrefs. \<not> (\<exists>a b. l = a @ u ''/product/'' @ b))) \<and>
         buscar_shopee_scraping env termo =
           (if links = [] then shopee_fallback termo (shopee_url termo)
            else shopee_header termo @ concat (map shopee_line (enumerate 0 links)),
            [HttpGet (shopee_url termo) []]) \<and>
         (\<exists>notice. shopee_fallback termo (shopee_url termo) =
            notice @
            [0x1F517] @ u '' [Produto 1 - '' @ termo @ u '']('' @ shopee_url termo @ u '')'' @
            [10] @
            [0x1F517] @ u '' [Produto 2 - '' @ termo @ u '']('' @ shopee_url termo @ u '')'' @
            [10]) \<and>
         (\<forall>t ls. shopee_fallback termo (shopee_url termo) \<noteq>
            shopee_header t @ concat (map shopee_line ls))"
proof -
  have f1: "length links \<le> 3"
    using assms(2) length_product_links by simp
  have f2: "\<forall>l\<in>set links. l \<in> set hrefs \<and> (\<exists>a b. l = a @ u ''/product/'' @ b)"
    using assms(2) set_product_links by blast
  have f3: "links = [] \<longleftrightarrow> (\<forall>l\<in>set hrefs. \<not> (\<exists>a b. l = a @ u ''/product/'' @ b))"
    using assms(2) product_links_Nil_iff [of hrefs] contains_iff by simp
  have f4: "buscar_shopee_scraping env termo =
           (if links = [] then shopee_fallback termo (shopee_url termo)
            else shopee_header termo @ concat (map shopee_line (enumerate 0 links)),
            [HttpGet (shopee_url termo) []])"
    using assms by (simp add: buscar_shopee_scraping_def Let_def foldl_append_concat)
  have f5: "\<forall>t ls. shopee_fallback termo (shopee_url termo) \<noteq>
            shopee_header t @ concat (map shopee_line ls)"
    using shopee_fallback_not_result by simp
  show ?thesis
    by (intro conjI f1 f2 f3 f4 f5 shopee_fallback_links)
qed

text \<open>The term \<open>xyz123\<close> on a page whose anchors are no products.\<close>

theorem search_links_capped_witness:
  "http_shopee (demo_env\<lparr>http_shopee := (\<lambda>a. Ok [u ''/about'', u ''/cart''])\<rparr>)
     (shopee_url (u ''xyz123'')) = Ok [u ''/about'', u ''/cart''] \<and>
   product_links [u ''/about'', u ''/cart''] = [] \<and>
   shopee_url (u ''xyz123'') = u ''https://shopee.com.br/search?keyword=xyz123'' \<and>
   buscar_shopee_scraping (demo_env\<lparr>http_shopee := (\<lambda>a. Ok [u ''/about'', u ''/cart''])\<rparr>)
     (u ''xyz123'') =
     (shopee_fallback (u ''xyz123'') (u ''https://shopee.com.br/search?keyword=xyz123''),
      [HttpGet (u ''https://shopee.com.br/search?keyword=xyz123'') []])"
proof -
  have r: "http_shopee (demo_env\<lparr>http_shopee := (\<lambda>a. Ok [u ''/about'', u ''/cart''])\<rparr>)
     (shopee_url (u ''xyz123'')) = Ok [u ''/about'', u ''/cart'']"
    by simp
  have p: "product_links [u ''/about'', u ''/cart''] = []"
    by (simp add: product_links_def u_def)
  have l: "shopee_url (u ''xyz123'') = u ''https://shopee.com.br/search?keyword=xyz123''"
    by (simp add: shopee_url_def replace_chr_def u_def space_def)
  from search_links_capped [OF r p [symmetric], THEN conjunct2, THEN conjunct2, THEN conjunct2,
      THEN conjunct1]
  show ?thesis
    using r p by (simp only: l) simp
qed

section \<open>The commands\<close>

lemma command_start: "command_of (u ''/start'') = Some (u ''start'')"
  by (simp add: command_of_def u_def slash_def is_cmd_char_def lower_ascii_def underscore_def)

lemma command_help: "command_of (u ''/help'') = Some (u ''help'')"
  by (simp add: command_of_def u_def slash_def is_cmd_char_def lower_ascii_def underscore_def)

lemma help_not_start: "u ''help'' \<noteq> u ''start''"
  by (simp add: u_def)

text \<open>
  Claim C9. For every user and every pending state, the commands \<open>start\<close> and \<open>help\<close> send
  the fixed menu, respectively the fixed help text, as their only effect, and leave the
  world, hence the pending state of the user, as it was. What they send does not depend
  on the pending states: the handlers do not read them. This holds for the handlers and
  for every message that the application routes to them, \<open>/start\<close> and \<open>/help\<close> among
  them.
\<close>

theorem start_help_keep_state:
  "start uid w = (w, [ReplyMenu start_text keyboard]) \<and>
   help_command uid w = (w, [ReplyText help_text]) \<and>
   dispatch rt env uid (Message (u ''/start'')) w = (w, [ReplyMenu start_text keyboard]) \<and>
   dispatch rt env uid (Message (u ''/help'')) w = (w, [ReplyText help_text]) \<and>
   (command_of raw = Some (u ''start'') \<longrightarrow>
      dispatch rt env uid (Message raw) w = (w, [ReplyMenu start_text keyboard])) \<and>
   (command_of raw = Some (u ''help'') \<longrightarrow>
      dispatch rt env uid (Message raw) w = (w, [ReplyText help_text])) \<and>
   user_data (fst (dispatch rt env uid (Message (u ''/start'')) w)) uid = user_data w uid \<and>
   user_data (fst (dispatch rt env uid (Message (u ''/help'')) w)) uid = user_data w uid \<and>
   snd (start uid (w\<lparr>user_data := f\<rparr>)) = snd (start uid w) \<and>
   snd (help_command uid (w\<lparr>user_data := f\<rparr>)) = snd (help_command uid w)"
  by (simp add: dispatch_def start_def help_command_def command_start command_help
      help_not_start)

text \<open>A user who is about to enter a purchase sends a command.\<close>

theorem start_help_keep_state_witness:
  "user_data demo_world 7 = Some waiting_purchase \<and>
   command_of (u ''/start'') = Some (u ''start'') \<and>
   dispatch int_runtime demo_env 7 (Message (u ''/start'')) demo_world =
     (demo_world, [ReplyMenu start_text keyboard]) \<and>
   user_data (fst (dispatch int_runtime demo_env 7 (Message (u ''/help'')) demo_world)) 7 =
     Some waiting_purchase"
proof -
  have s: "user_data demo_world 7 = Some waiting_purchase"
    by (simp add: demo_world_def)
  from start_help_keep_state [of 7 demo_world int_runtime demo_env "u ''/start''"]
  show ?thesis
    using s command_start by simp
qed

section \<open>Hyphens inside the fields of a purchase\<close>

lemma count_list_pos: "x \<in> set xs \<Longrightarrow> 0 < count_list xs x"
  using count_list_0_iff [of xs x] by simp

lemma three_hyphens:
  assumes "raw = produto @ [hyphen] @ valor @ [hyphen] @ categoria"
    and "hyphen \<in> set produto \<or> hyphen \<in> set valor \<or> hyphen \<in> set categoria"
  shows "3 \<le> count_list raw hyphen"
proof -
  have "0 < count_list produto hyphen + count_list valor hyphen + count_list categoria hyphen"
    using assms(2) count_list_pos [of hyphen] by fastforce
  then show ?thesis
    using assms(1) by (auto simp add: count_list_append)
qed

lemma many_fields_format_error:
  assumes "user_data w uid = Some waiting_purchase"
    and "length (split_sep hyphen (strip raw)) \<noteq> 3"
  shows "handle_message rt env uid raw w =
           (w\<lparr>user_data := (user_data w)(uid := None)\<rparr>,
            [SetState uid None, ReplyText format_error_message])"
  using assms by (simp add: handle_message_def Let_def set_state_def)

lemma set_replace_chr: "set (replace_chr a b s) \<subseteq> set s \<union> set b"
  by (auto simp add: replace_chr_def split: if_splits)

lemma value_text_no_hyphen:
  assumes "length (split_sep hyphen t) = 3"
  shows "hyphen \<notin> set (replace_chr comma [period] (strip (split_sep hyphen t ! 1)))"
proof -
  have "split_sep hyphen t ! 1 \<in> set (split_sep hyphen t)"
    using assms by simp
  then have "hyphen \<notin> set (split_sep hyphen t ! 1)"
    by (rule split_fields_no_sep)
  then have "hyphen \<notin> set (strip (split_sep hyphen t ! 1))"
    using set_strip by blast
  moreover have "hyphen \<noteq> period"
    by (simp add: hyphen_def period_def)
  ultimately show ?thesis
    using set_replace_chr [of comma "[period]" "strip (split_sep hyphen t ! 1)"] by auto
qed

lemma analisar_no_DbAdd: "DbAdd p \<notin> set (snd (analisar_com_ia rt env uid prompt w))"
  by (simp add: analisar_com_ia_def Let_def split: option.splits sum.splits)

lemma send_or_raise_no_DbAdd: "DbAdd p \<notin> set (send_or_raise ReplyText r)"
  by (simp add: send_or_raise_def split: sum.splits)

lemma shopee_no_DbAdd: "DbAdd p \<notin> set (snd (buscar_shopee_scraping env termo))"
  by (simp add: buscar_shopee_scraping_def Let_def split: response.splits)

lemma added_value_source:
  assumes "DbAdd p \<in> set (snd (handle_message rt env uid raw w))"
  shows "\<exists>s v. hyphen \<notin> set s \<and> pyfloat rt s = Some v \<and>
           value_col p = (if isnan rt v then None else Some v)"
proof (cases "user_data w uid")
  case None
  with assms show ?thesis
    by (simp add: handle_message_def Let_def analisar_no_DbAdd send_or_raise_no_DbAdd
        split: if_splits)
next
  case (Some st)
  show ?thesis
  proof (cases st)
    case waiting_shopee_term
    with Some assms show ?thesis
      by (simp add: handle_message_def Let_def shopee_no_DbAdd)
  next
    case waiting_ai_prompt
    with Some assms show ?thesis
      by (simp add: handle_message_def Let_def analisar_no_DbAdd send_or_raise_no_DbAdd)
  next
    case waiting_purchase
    show ?thesis
    proof (cases "length (split_sep hyphen (strip raw)) = 3")
      case False
      with Some waiting_purchase assms show ?thesis
        by (simp add: handle_message_def Let_def)
    next
      case True
      let ?s = "replace_chr comma [period] (strip (split_sep hyphen (strip raw) ! 1))"
      have n: "hyphen \<notin> set ?s"
        using True by (rule value_text_no_hyphen)
      have "\<exists>v. pyfloat rt ?s = Some v \<and> value_col p = (if isnan rt v then None else Some v)"
        using Some waiting_purchase True assms
        by (auto simp add: handle_message_def Let_def stored_value_def split: option.splits)
      with n show ?thesis by blast
    qed
  qed
qed

lemma purchases_after:
  "set (purchases (fst (handle_message rt env uid raw w))) \<subseteq>
     set (purchases w) \<union> {p. DbAdd p \<in> set (snd (handle_message rt env uid raw w))}"
proof (cases "user_data w uid")
  case None
  then show ?thesis
    by (simp add: handle_message_def Let_def)
next
  case (Some st)
  then show ?thesis
    by (cases st)
      (auto simp add: handle_message_def Let_def set_state_def simp del: length_map
        split: option.splits)
qed

text \<open>On the runtime for whole amounts, a negative value comes from a text with a minus
  sign only, as with \<open>float\<close>.\<close>

lemma int_float_negative: "int_float s = Some v \<and> v < 0 \<longrightarrow> hyphen \<in> set s"
proof
  assume a: "int_float s = Some v \<and> v < 0"
  then obtain c cs where c: "strip s = c # cs"
    by (cases "strip s") (auto simp add: int_float_def)
  with a have "c = hyphen"
    by (auto simp add: int_float_def split: if_splits)
  with c have "hyphen \<in> set (strip s)"
    by simp
  then show "hyphen \<in> set s"
    using set_strip by blast
qed

lemma int_runtime_negative:
  "\<forall>s v. pyfloat int_runtime s = Some v \<and> v < 0 \<longrightarrow> hyphen \<in> set s"
  using int_float_negative by (auto simp add: int_runtime_def)

lemma book_added:
  "snd (handle_message int_runtime demo_env 7 (u ''Book - 12 - Fun'') demo_world) =
     [SetState 7 None, DbAdd (book 1 7 12 3),
      ReplyText (purchase_confirmation int_runtime (u ''Book'') 12 (u ''Fun''))]"
proof -
  have f: "map strip (split_sep hyphen (strip (u ''Book - 12 - Fun''))) =
      [u ''Book'', u ''12'', u ''Fun'']"
    by (simp add: u_def strip_def isspace_def hyphen_def)
  have v: "pyfloat int_runtime (replace_chr comma [period] (u ''12'')) = Some 12"
    by (simp add: int_runtime_def int_float_def replace_chr_def u_def strip_def isspace_def
        hyphen_def comma_def period_def)
  have s: "user_data demo_world 7 = Some waiting_purchase"
    by (simp add: demo_world_def)
  have n: "next_id (purchases (set_state 7 None demo_world)) = 1" "now demo_env = 3"
    "stored_value int_runtime 12 = Some 12"
    by (simp_all add: next_id_def set_state_def demo_world_def demo_env_def stored_value_def
        int_runtime_def)
  show ?thesis
    using s f v n by (simp add: handle_message_def Let_def book_def del: length_map)
qed

text \<open>
  Claim C10. An entry \<open>product - value - category\<close> received under the pending state
  \<open>waiting_purchase\<close>, one of whose three parts contains a hyphen itself (a product such
  as \<open>Spider-Man\<close>, or a value with a leading minus sign): the split gives more than three
  fields, the answer is the format error and nothing is stored. And whatever the text of
  a message: a purchase the handler stores has a value that \<open>float\<close> returned for a text
  without any hyphen; so, as long as \<open>float\<close> returns a negative number for a text with a
  minus sign only, no stored value is negative.
\<close>

theorem hyphen_in_field_rejected:
  "(user_data w uid = Some waiting_purchase \<and>
    raw = produto @ [hyphen] @ valor @ [hyphen] @ categoria \<and>
    (hyphen \<in> set produto \<or> hyphen \<in> set valor \<or> hyphen \<in> set categoria) \<longrightarrow>
      3 < length (split_sep hyphen (strip raw)) \<and>
      handle_message rt env uid raw w =
        (w\<lparr>user_data := (user_data w)(uid := None)\<rparr>,
         [SetState uid None, ReplyText format_error_message])) \<and>
   (\<forall>p. DbAdd p \<in> set (snd (handle_message rt env uid msg w)) \<or>
        p \<in> set (purchases (fst (handle_message rt env uid msg w))) - set (purchases w) \<longrightarrow>
        (\<exists>s v. hyphen \<notin> set s \<and> pyfloat rt s = Some v \<and>
           value_col p = (if isnan rt v then None else Some v)) \<and>
        ((\<forall>s v. pyfloat rt s = Some v \<and> negative v \<longrightarrow> hyphen \<in> set s) \<longrightarrow>
           (\<forall>v. value_col p = Some v \<longrightarrow> \<not> negative v)))"
proof (intro conjI impI allI)
  assume a: "user_data w uid = Some waiting_purchase \<and>
    raw = produto @ [hyphen] @ valor @ [hyphen] @ categoria \<and>
    (hyphen \<in> set produto \<or> hyphen \<in> set valor \<or> hyphen \<in> set categoria)"
  then have "3 \<le> count_list raw hyphen"
    using three_hyphens by blast
  then have "3 \<le> count_list (strip raw) hyphen"
    by (simp add: count_list_strip not_isspace_hyphen)
  then show l: "3 < length (split_sep hyphen (strip raw))"
    by (simp add: length_split_sep)
  then show "handle_message rt env uid raw w =
        (w\<lparr>user_data := (user_data w)(uid := None)\<rparr>,
         [SetState uid None, ReplyText format_error_message])"
    using a many_fields_format_error [of w uid raw rt env] by simp
next
  fix p
  assume "DbAdd p \<in> set (snd (handle_message rt env uid msg w)) \<or>
        p \<in> set (purchases (fst (handle_message rt env uid msg w))) - set (purchases w)"
  then have d: "DbAdd p \<in> set (snd (handle_message rt env uid msg w))"
    using purchases_after [of rt env uid msg w] by blast
  then show e: "\<exists>s v. hyphen \<notin> set s \<and> pyfloat rt s = Some v \<and>
           value_col p = (if isnan rt v then None else Some v)"
    by (rule added_value_source)
  fix v
  assume n: "\<forall>s v. pyfloat rt s = Some v \<and> negative v \<longrightarrow> hyphen \<in> set s"
    and sv: "value_col p = Some v"
  from e obtain s v' where f: "hyphen \<notin> set s" "pyfloat rt s = Some v'"
      "value_col p = (if isnan rt v' then None else Some v')"
    by blast
  from f(3) sv have "v' = v"
    by (simp split: if_splits)
  with f(1,2) n show "\<not> negative v"
    by blast
qed

text \<open>The entry \<open>Spider-Man - 50 - Games\<close> is rejected; the entry \<open>Book - 12 - Fun\<close> is stored
  with the value 12.\<close>

theorem hyphen_in_field_rejected_witness:
  "user_data demo_world 7 = Some waiting_purchase \<and>
   u ''Spider-Man - 50 - Games'' =
     u ''Spider'' @ [hyphen] @ u ''Man '' @ [hyphen] @ u '' 50 '' @ [hyphen] @ u '' Games'' \<and>
   handle_message int_runtime demo_env 7 (u ''Spider-Man - 50 - Games'') demo_world =
     (demo_world\<lparr>user_data := (user_data demo_world)(7 := None)\<rparr>,
      [SetState 7 None, ReplyText format_error_message]) \<and>
   DbAdd (book 1 7 12 3) \<in>
     set (snd (handle_message int_runtime demo_env 7 (u ''Book - 12 - Fun'') demo_world)) \<and>
   value_col (book 1 7 12 3) = Some 12 \<and> \<not> (12::int) < 0"
proof -
  have s: "user_data demo_world 7 = Some waiting_purchase"
    by (simp add: demo_world_def)
  have r: "u ''Spider-Man - 50 - Games'' =
     u ''Spider'' @ [hyphen] @ u ''Man '' @ [hyphen] @ u '' 50 '' @ [hyphen] @ u '' Games''"
    by (simp add: u_def hyphen_def)
  then have r': "u ''Spider-Man - 50 - Games'' =
     (u ''Spider'' @ [hyphen] @ u ''Man '') @ [hyphen] @ u '' 50 '' @ [hyphen] @ u '' Games''"
    by simp
  have h: "hyphen \<in> set (u ''Spider'' @ [hyphen] @ u ''Man '')"
    by simp
  note t = hyphen_in_field_rejected [where w = demo_world and uid = 7
      and raw = "u ''Spider-Man - 50 - Games''" and produto = "u ''Spider'' @ [hyphen] @ u ''Man ''"
      and valor = "u '' 50 ''" and categoria = "u '' Games''" and rt = int_runtime
      and env = demo_env and msg = "u ''Book - 12 - Fun''" and negative = "\<lambda>v. v < 0"]
  have a: "handle_message int_runtime demo_env 7 (u ''Spider-Man - 50 - Games'') demo_world =
     (demo_world\<lparr>user_data := (user_data demo_world)(7 := None)\<rparr>,
      [SetState 7 None, ReplyText format_error_message])"
    using t s r' h by blast
  have b: "DbAdd (book 1 7 12 3) \<in>
     set (snd (handle_message int_runtime demo_env 7 (u ''Book - 12 - Fun'') demo_world))"
    by (simp add: book_added)
  have v: "value_col (book 1 7 12 3) = Some 12"
    by (simp add: book_def)
  have c: "\<not> (12::int) < 0"
    using t b v int_runtime_negative by blast
  show ?thesis
    using s r a b v c by blast
qed

end
